theory Spec2Isabelle
  imports Complex_Main "HOL-Library.AList" "HOL-Library.Sublist"
begin

section \<open>Python strings\<close>

text \<open>
  A Python \<open>str\<close> is modelled as a \<open>string\<close> whose characters stand for code points
  below 256 (Latin-1), so that \<open>length\<close> and slicing count what Python counts.
  The emoji of the source's messages are written as their UTF-8 bytes.
\<close>

definition py_isspace :: "char \<Rightarrow> bool" where
  "py_isspace c =
     (let n = (of_char c :: nat)
      in (9 \<le> n \<and> n \<le> 13) \<or> (28 \<le> n \<and> n \<le> 32) \<or> n = 133 \<or> n = 160)"

definition py_strip :: "string \<Rightarrow> string" where
  "py_strip s = rev (dropWhile py_isspace (rev (dropWhile py_isspace s)))"

definition py_lower_char :: "char \<Rightarrow> char" where
  "py_lower_char c =
     (let n = (of_char c :: nat)
      in if (65 \<le> n \<and> n \<le> 90) \<or> (192 \<le> n \<and> n \<le> 222 \<and> n \<noteq> 215)
         then char_of (n + 32) else c)"

definition py_lower :: "string \<Rightarrow> string" where
  "py_lower s = map py_lower_char s"

definition startswith :: "string \<Rightarrow> string \<Rightarrow> bool" where
  "startswith s p = (take (length p) s = p)"

fun contains :: "string \<Rightarrow> string \<Rightarrow> bool" where
  "contains p [] = (p = [])"
| "contains p (c # cs) = (startswith (c # cs) p \<or> contains p cs)"

fun join :: "string \<Rightarrow> string list \<Rightarrow> string" where
  "join sep [] = []"
| "join sep [x] = x"
| "join sep (x # y # ys) = x @ sep @ join sep (y # ys)"

definition basename :: "string \<Rightarrow> string" where
  "basename p = rev (takeWhile (\<lambda>c. c \<noteq> CHR ''/'') (rev p))"

section \<open>Exceptions\<close>

datatype exn =
    AttributeError string string
  | KeyError string
  | TypeError string
  | ExternalError string

fun str_of_exn :: "exn \<Rightarrow> string" where
  "str_of_exn (AttributeError cls name) =
     [CHR 0x27] @ cls @ [CHR 0x27] @ '' object has no attribute '' @ [CHR 0x27] @ name @ [CHR 0x27]"
| "str_of_exn (KeyError k) = [CHR 0x27] @ k @ [CHR 0x27]"
| "str_of_exn (TypeError m) = m"
| "str_of_exn (ExternalError m) = m"

section \<open>Knowledge base: retrieval\<close>

record document =
  page_content :: string
  metadata :: "(string \<times> string) list"

text \<open>
  The knowledge base object: its settings (the \<open>knowledge_base\<close> section of the
  configuration, of which retrieval reads \<open>relevance_threshold\<close>) and its vector store.
  The store's \<open>similarity_search_with_relevance_scores\<close> belongs to the vector-store
  library: it is the field \<open>db_search\<close>, which may raise. Python's rendering of a
  float with \<open>:.2f\<close> is the parameter \<open>fmt2f\<close>.
\<close>

record knowledge_base =
  relevance_threshold :: "real option"
  db_docs :: "document list"
  db_persisted :: "document list"
  db_search :: "document list \<Rightarrow> string \<Rightarrow> int \<Rightarrow> exn + (document \<times> real) list"

definition md_get :: "(string \<times> string) list \<Rightarrow> string \<Rightarrow> string \<Rightarrow> string" where
  "md_get md k dflt = (case map_of md k of None \<Rightarrow> dflt | Some v \<Rightarrow> v)"

definition format_result :: "(real \<Rightarrow> string) \<Rightarrow> document \<Rightarrow> real \<Rightarrow> string" where
  "format_result fmt2f doc score =
     (let source = md_get (metadata doc) ''source'' ''Unknown source'';
          source_type = md_get (metadata doc) ''file_type'' (md_get (metadata doc) ''type'' '''');
          title = md_get (metadata doc) ''title'' '''';
          header = (if title \<noteq> []
                    then ''Source: '' @ title @ '' ('' @ source_type @ '')''
                    else ''Source: '' @ basename source @ '' ('' @ source_type @ '')'')
      in header @ ''\<newline>Relevance: '' @ fmt2f score @ ''\<newline>Content: '' @ page_content doc
           @ ''\<newline>'')"

text \<open>The \<open>for doc, score in results\<close> loop, appending to \<open>formatted_results\<close>.\<close>

fun collect_results ::
  "(real \<Rightarrow> string) \<Rightarrow> real \<Rightarrow> (document \<times> real) list \<Rightarrow> string list \<Rightarrow> string list" where
  "collect_results fmt2f thr [] formatted_results = formatted_results"
| "collect_results fmt2f thr ((doc, score) # rest) formatted_results =
     (if score > thr
      then collect_results fmt2f thr rest (formatted_results @ [format_result fmt2f doc score])
      else collect_results fmt2f thr rest formatted_results)"

definition no_relevant :: string where
  "no_relevant = ''No relevant information found in knowledge base.''"

definition error_retrieving :: string where
  "error_retrieving = ''Error retrieving information from knowledge base.''"

definition search_relevant_context ::
  "(real \<Rightarrow> string) \<Rightarrow> knowledge_base \<Rightarrow> string \<Rightarrow> int \<Rightarrow> string" where
  "search_relevant_context fmt2f kb query top_k =
     (case db_search kb (db_docs kb) query top_k of
        Inl e \<Rightarrow> error_retrieving
      | Inr results \<Rightarrow>
          (let thr = (case relevance_threshold kb of None \<Rightarrow> 0.2 | Some t \<Rightarrow> t);
               formatted_results = collect_results fmt2f thr results []
           in if formatted_results = [] then no_relevant
              else join ''\<newline>\<newline>'' formatted_results))"

text \<open>
  The retrieval contract in the spec's words: the candidates above the threshold, in the
  order of the similarity ranking.
\<close>

definition threshold_of :: "knowledge_base \<Rightarrow> real" where
  "threshold_of kb = (case relevance_threshold kb of None \<Rightarrow> 0.2 | Some t \<Rightarrow> t)"

definition surviving :: "real \<Rightarrow> (document \<times> real) list \<Rightarrow> (document \<times> real) list" where
  "surviving thr results = filter (\<lambda>(doc, score). score > thr) results"

section \<open>JSON values, files and the world\<close>

text \<open>
  The values that \<open>json.load\<close> returns and \<open>json.dump\<close> writes. A dict is an association
  list in insertion order. A file holds either text that \<open>json.load\<close> rejects
  (\<open>Garbage\<close>) or text that parses to a value (\<open>Json\<close>); the text layer of the \<open>json\<close>
  library is not modelled.
\<close>

datatype json =
    JNull
  | JBool bool
  | JNum real
  | JStr string
  | JArr "json list"
  | JObj "(string \<times> json) list"

datatype file_content = Garbage | Json json

record message =
  role :: string
  content :: string

text \<open>
  Calls that cross a component boundary, recorded in the order they are made:
  \<open>claude_model.get_response(message, history, context)\<close>,
  \<open>summary_memory.load_memory_variables({})\<close>, \<open>query_perplexity(query)\<close>,
  \<open>search_arxiv(query)\<close> and \<open>knowledge_base.search_relevant_context(query, top_k)\<close>.
\<close>

datatype call =
    GenerationCall string "message list option" "string option"
  | SummaryCall
  | WebSearchCall string
  | ArxivSearchCall string
  | RetrievalCall string int

record world =
  fs :: "string \<rightharpoonup> file_content"
  write_fails :: "string \<Rightarrow> bool"
  clock :: real
  uuid_source :: "nat \<Rightarrow> string"
  uuid_count :: nat
  calls :: "call list"

definition log_call :: "call \<Rightarrow> world \<Rightarrow> world" where
  "log_call c w = w\<lparr>calls := calls w @ [c]\<rparr>"

text \<open>\<open>open(path, "r")\<close>: \<open>None\<close> is \<open>FileNotFoundError\<close>.\<close>

definition fs_read :: "world \<Rightarrow> string \<Rightarrow> file_content option" where
  "fs_read w path = (if path = [] then None else fs w path)"

text \<open>\<open>open(path, "w")\<close> followed by \<open>json.dump\<close>; a failed open leaves the file as it was.\<close>

definition fs_write :: "world \<Rightarrow> string \<Rightarrow> json \<Rightarrow> exn + world" where
  "fs_write w path j =
     (if path = [] \<or> write_fails w path then Inl (ExternalError ''cannot open file for writing'')
      else Inr (w\<lparr>fs := (fs w)(path \<mapsto> Json j)\<rparr>))"

definition uuid4 :: "world \<Rightarrow> string \<times> world" where
  "uuid4 w = (uuid_source w (uuid_count w), w\<lparr>uuid_count := Suc (uuid_count w)\<rparr>)"

subsection \<open>Dynamic operations on JSON values\<close>

fun py_truthy :: "json \<Rightarrow> bool" where
  "py_truthy JNull = False"
| "py_truthy (JBool b) = b"
| "py_truthy (JNum x) = (x \<noteq> 0)"
| "py_truthy (JStr s) = (s \<noteq> [])"
| "py_truthy (JArr xs) = (xs \<noteq> [])"
| "py_truthy (JObj kvs) = (kvs \<noteq> [])"

fun py_type_name :: "json \<Rightarrow> string" where
  "py_type_name JNull = ''NoneType''"
| "py_type_name (JBool b) = ''bool''"
| "py_type_name (JNum x) = ''float''"
| "py_type_name (JStr s) = ''str''"
| "py_type_name (JArr xs) = ''list''"
| "py_type_name (JObj kvs) = ''dict''"

text \<open>
  \<open>d[k]\<close>, \<open>d.get(k, default)\<close>, \<open>d[k] = v\<close> and \<open>d.items()\<close> on a value that may not be a
  dict. The kind of each exception is the interpreter's; the text of a \<open>TypeError\<close> is
  abbreviated. \<open>JNum\<close> stands for both of Python's number types.
\<close>

fun py_getitem :: "json \<Rightarrow> string \<Rightarrow> exn + json" where
  "py_getitem (JObj kvs) k = (case map_of kvs k of None \<Rightarrow> Inl (KeyError k) | Some v \<Rightarrow> Inr v)"
| "py_getitem j k = Inl (TypeError (py_type_name j @ '' indices must be integers''))"

fun py_get :: "json \<Rightarrow> string \<Rightarrow> json \<Rightarrow> exn + json" where
  "py_get (JObj kvs) k dflt = (case map_of kvs k of None \<Rightarrow> Inr dflt | Some v \<Rightarrow> Inr v)"
| "py_get j k dflt = Inl (AttributeError (py_type_name j) ''get'')"

fun py_setitem :: "json \<Rightarrow> string \<Rightarrow> json \<Rightarrow> exn + json" where
  "py_setitem (JObj kvs) k v = Inr (JObj (AList.update k v kvs))"
| "py_setitem j k v =
     Inl (TypeError (py_type_name j @ '' object does not support item assignment''))"

fun py_items :: "json \<Rightarrow> exn + (string \<times> json) list" where
  "py_items (JObj kvs) = Inr kvs"
| "py_items j = Inl (AttributeError (py_type_name j) ''items'')"

text \<open>
  A value inside an f-string. \<open>repr\<close> renders numbers and containers (Python's float and
  container printing), and is a parameter.
\<close>

fun py_format :: "(json \<Rightarrow> string) \<Rightarrow> json \<Rightarrow> string" where
  "py_format repr (JStr s) = s"
| "py_format repr JNull = ''None''"
| "py_format repr (JBool b) = (if b then ''True'' else ''False'')"
| "py_format repr j = repr j"

fun str_of_nat :: "nat \<Rightarrow> string" where
  "str_of_nat n =
     (if n < 10 then [char_of (48 + n)] else str_of_nat (n div 10) @ [char_of (48 + n mod 10)])"

section \<open>The language model (models.py)\<close>

datatype lc_message = HumanMessage string | AIMessage string

text \<open>\<open>self.model.invoke(messages)\<close> is the vendor's call; it returns the content or raises.\<close>

record claude_model =
  invoke :: "lc_message list \<Rightarrow> exn + string"

fun lc_of_message :: "message \<Rightarrow> lc_message list" where
  "lc_of_message msg =
     (if role msg = ''user'' then [HumanMessage (content msg)]
      else if role msg = ''assistant'' then [AIMessage (content msg)]
      else [])"

definition last6 :: "'a list \<Rightarrow> 'a list" where
  "last6 xs = drop (length xs - 6) xs"

definition ClaudeModel_get_response ::
  "claude_model \<Rightarrow> world \<Rightarrow> string \<Rightarrow> message list option \<Rightarrow> string option \<Rightarrow> string \<times> world" where
  "ClaudeModel_get_response cm w msg history context =
     (let w1 = log_call (GenerationCall msg history context) w;
          messages0 = (case history of
                         None \<Rightarrow> []
                       | Some h \<Rightarrow> if h = [] then [] else concat (map lc_of_message (last6 h)));
          augmented_message = (case context of
                                 None \<Rightarrow> msg
                               | Some c \<Rightarrow> if c = [] then msg else msg @ ''\<newline>\<newline>'' @ c)
      in case invoke cm (messages0 @ [HumanMessage augmented_message]) of
           Inl e \<Rightarrow>
             (''I encountered an error communicating with my language model: '' @ str_of_exn e, w1)
         | Inr text \<Rightarrow> (text, w1))"

section \<open>Configuration and collaborators\<close>

record config =
  files :: "(string \<times> string) list"

definition get_file_path :: "config \<Rightarrow> string \<Rightarrow> string" where
  "get_file_path cfg file_key = (case map_of (files cfg) file_key of None \<Rightarrow> [] | Some p \<Rightarrow> p)"

text \<open>
  What the code gets from libraries and vendors: float and container printing, the
  summarizer's \<open>load_memory_variables\<close> (the rendering of its \<open>chat_history\<close> entry, from
  the stored chat messages and buffer), the web search and the paper search (each
  returns text and never raises), \<open>time.strftime\<close>, and the three text extractors.
  \<open>KnowledgeBase\<close> defines neither \<open>get_stats\<close> nor \<open>add_document\<close>; the last two
  fields stand for whatever such a method would return, and are reached only where the
  attribute lookup on the class succeeds.
\<close>

record env =
  format_2f :: "real \<Rightarrow> string"
  repr :: "json \<Rightarrow> string"
  summarize :: "lc_message list \<Rightarrow> string \<Rightarrow> exn + string"
  perplexity :: "string \<Rightarrow> string"
  arxiv :: "string \<Rightarrow> string"
  strftime :: "real \<Rightarrow> string"
  read_text :: "string \<Rightarrow> exn + string"
  pdf_reader :: "string \<Rightarrow> exn + (exn + string) list"
  docx2txt_process :: "string \<Rightarrow> exn + string"
  get_stats_body :: "exn + json"
  add_document_body :: "string \<Rightarrow> (string \<times> json) list \<Rightarrow> exn + bool"

section \<open>Conversation memory (memory.py)\<close>

record summary_memory =
  chat_memory :: "lc_message list"
  buffer :: string

definition clear :: "summary_memory \<Rightarrow> summary_memory" where
  "clear sm = sm\<lparr>chat_memory := [], buffer := []\<rparr>"

definition load_memory_variables :: "env \<Rightarrow> world \<Rightarrow> summary_memory \<Rightarrow> (exn + string) \<times> world" where
  "load_memory_variables env w sm = (summarize env (chat_memory sm) (buffer sm), log_call SummaryCall w)"

record memory =
  claude :: claude_model
  thread_id :: string
  messages :: "message list"
  memory_file :: string
  paper_details_file :: string
  summary_memory :: summary_memory

definition json_of_message :: "message \<Rightarrow> json" where
  "json_of_message msg = JObj [(''role'', JStr (role msg)), (''content'', JStr (content msg))]"

definition message_of_json :: "json \<Rightarrow> message option" where
  "message_of_json j =
     (case j of
        JObj [(k1, JStr r), (k2, JStr c)] \<Rightarrow>
          if k1 = ''role'' \<and> k2 = ''content'' then Some \<lparr>role = r, content = c\<rparr> else None
      | _ \<Rightarrow> None)"

definition messages_of_json :: "json \<Rightarrow> message list option" where
  "messages_of_json j = (case j of JArr xs \<Rightarrow> those (map message_of_json xs) | _ \<Rightarrow> None)"

text \<open>
  \<open>_load_messages\<close>. A missing or unparsable file gives the empty log. A parsed log of
  \<open>{role, content}\<close> objects, the shape \<open>_save_messages\<close> writes, is taken over and
  replayed into the summarizer's chat memory. For any other parsed value the source
  raises out of the constructor (\<open>TypeError\<close>, \<open>KeyError\<close>) or keeps an untyped value;
  the model stops there with \<open>Inl\<close>.
\<close>

definition load_messages :: "world \<Rightarrow> memory \<Rightarrow> exn + memory" where
  "load_messages w m =
     (case fs_read w (memory_file m) of
        None \<Rightarrow> Inr (m\<lparr>messages := []\<rparr>)
      | Some Garbage \<Rightarrow> Inr (m\<lparr>messages := []\<rparr>)
      | Some (Json j) \<Rightarrow>
          (case messages_of_json j of
             None \<Rightarrow> Inl (TypeError ''message log is not a list of role/content objects'')
           | Some msgs \<Rightarrow>
               Inr (m\<lparr>messages := msgs,
                       summary_memory := (summary_memory m)
                         \<lparr>chat_memory := chat_memory (summary_memory m) @ concat (map lc_of_message msgs)\<rparr>\<rparr>)))"

definition save_messages :: "world \<Rightarrow> memory \<Rightarrow> world" where
  "save_messages w m =
     (case fs_write w (memory_file m) (JArr (map json_of_message (messages m))) of
        Inl e \<Rightarrow> w
      | Inr w' \<Rightarrow> w')"

definition PenelopeMemory_init :: "config \<Rightarrow> claude_model \<Rightarrow> world \<Rightarrow> (exn + memory) \<times> world" where
  "PenelopeMemory_init cfg cm w =
     (let (u, w1) = uuid4 w;
          mf = get_file_path cfg ''memory_file'';
          pf = get_file_path cfg ''paper_details_file'';
          m = \<lparr>claude = cm, thread_id = u, messages = [],
               memory_file = (if mf = [] then ''conversation_history.json'' else mf),
               paper_details_file = (if pf = [] then ''paper_details.json'' else pf),
               summary_memory = \<lparr>chat_memory = [], buffer = []\<rparr>\<rparr>
      in (load_messages w1 m, w1))"

definition PenelopeMemory_get_paper_details :: "world \<Rightarrow> memory \<Rightarrow> json" where
  "PenelopeMemory_get_paper_details w m =
     (case fs_read w (paper_details_file m) of
        None \<Rightarrow> JObj []
      | Some Garbage \<Rightarrow> JObj []
      | Some (Json j) \<Rightarrow> j)"

fun format_papers :: "env \<Rightarrow> (string \<times> json) list \<Rightarrow> string list \<Rightarrow> exn + string list" where
  "format_papers env [] formatted_papers = Inr formatted_papers"
| "format_papers env ((paper_id, paper) # rest) formatted_papers =
     (case py_getitem paper ''title'' of Inl e \<Rightarrow> Inl e | Inr title \<Rightarrow>
       (case py_getitem paper ''authors'' of Inl e \<Rightarrow> Inl e | Inr authors \<Rightarrow>
         (case py_get paper ''url'' (JStr ''N/A'') of Inl e \<Rightarrow> Inl e | Inr url \<Rightarrow>
            format_papers env rest
              (formatted_papers @
                [''Paper ID: '' @ paper_id @ ''\<newline>Title: '' @ py_format (repr env) title
                  @ ''\<newline>Authors: '' @ py_format (repr env) authors
                  @ ''\<newline>URL: '' @ py_format (repr env) url]))))"

definition get_paper_details_context :: "env \<Rightarrow> world \<Rightarrow> memory \<Rightarrow> string" where
  "get_paper_details_context env w m =
     (let paper_details = PenelopeMemory_get_paper_details w m
      in if \<not> py_truthy paper_details then ''No papers have been discussed yet.''
         else case py_items paper_details of
                Inl e \<Rightarrow> ''Error retrieving paper details.''
              | Inr items \<Rightarrow>
                  (case format_papers env items [] of
                     Inl e \<Rightarrow> ''Error retrieving paper details.''
                   | Inr formatted_papers \<Rightarrow>
                       ''Papers discussed in this conversation:\<newline>\<newline>''
                         @ join ''\<newline>\<newline>'' formatted_papers))"

definition add_message :: "world \<Rightarrow> memory \<Rightarrow> string \<Rightarrow> bool \<Rightarrow> world \<times> memory" where
  "add_message w m text is_human =
     (let sm = summary_memory m;
          m' = (if is_human
                then m\<lparr>summary_memory := sm\<lparr>chat_memory := chat_memory sm @ [HumanMessage text]\<rparr>,
                        messages := messages m @ [\<lparr>role = ''user'', content = text\<rparr>]\<rparr>
                else m\<lparr>summary_memory := sm\<lparr>chat_memory := chat_memory sm @ [AIMessage text]\<rparr>,
                        messages := messages m @ [\<lparr>role = ''assistant'', content = text\<rparr>]\<rparr>)
      in (save_messages w m', m'))"

definition summary_ack :: string where
  "summary_ack = ''I understand the conversation context and the papers we've discussed. What would you like to know next?''"

definition summary_history :: "string \<Rightarrow> message list" where
  "summary_history history_context =
     [\<lparr>role = ''user'', content = history_context\<rparr>, \<lparr>role = ''assistant'', content = summary_ack\<rparr>]"

definition error_reply :: "exn \<Rightarrow> string" where
  "error_reply e = ''I encountered an error: '' @ str_of_exn e @ ''. Please try again.''"

text \<open>The two \<open>add_message\<close> calls that end a turn.\<close>

definition store_turn :: "world \<Rightarrow> memory \<Rightarrow> string \<Rightarrow> string \<Rightarrow> string \<times> world \<times> memory" where
  "store_turn w m query response =
     (let (w1, m1) = add_message w m query True;
          (w2, m2) = add_message w1 m1 response False
      in (response, w2, m2))"

text \<open>
  \<open>PenelopeMemory.get_response\<close>. Every step that can raise inside the \<open>try\<close> is a
  branch: the handler turns the exception into the reply, and what was done before it
  (calls made) stays done.
\<close>

definition PenelopeMemory_get_response ::
  "env \<Rightarrow> world \<Rightarrow> memory \<Rightarrow> string \<Rightarrow> string option \<Rightarrow> string \<times> world \<times> memory" where
  "PenelopeMemory_get_response env w m query context =
     (let n = length (messages m);
          (periodic, w1) = (if n \<ge> 10 \<and> n mod 10 = 0
                            then load_memory_variables env w (summary_memory m)
                            else (Inr [], w))
      in case periodic of
           Inl e \<Rightarrow> (error_reply e, w1, m)
         | Inr _ \<Rightarrow>
             (let papers_context = get_paper_details_context env w1 m;
                  final_context =
                    (case context of None \<Rightarrow> [] | Some c \<Rightarrow> if c = [] then [] else c @ ''\<newline>\<newline>'')
                      @ ''Papers discussed: '' @ papers_context
              in if n \<ge> 10
                 then (case load_memory_variables env w1 (summary_memory m) of
                         (Inl e, w2) \<Rightarrow> (error_reply e, w2, m)
                       | (Inr summary, w2) \<Rightarrow>
                           (let history_context =
                                  ''Here's a summary of our conversation so far:\<newline>'' @ summary
                                    @ ''\<newline>\<newline>'';
                                final_context' = history_context @ final_context;
                                (response, w3) =
                                  ClaudeModel_get_response (claude m) w2 query
                                    (Some (summary_history history_context)) (Some final_context')
                            in store_turn w3 m query response))
                 else (let (response, w2) =
                             ClaudeModel_get_response (claude m) w1 query
                               (Some (messages m)) (Some final_context)
                       in store_turn w2 m query response)))"

definition reset :: "world \<Rightarrow> memory \<Rightarrow> world \<times> memory" where
  "reset w m =
     (let m1 = m\<lparr>messages := []\<rparr>;
          m2 = m1\<lparr>summary_memory := clear (summary_memory m1)\<rparr>;
          (u, w1) = uuid4 w;
          m3 = m2\<lparr>thread_id := u\<rparr>
      in (save_messages w1 m3, m3))"

section \<open>Knowledge base: the class and document ingestion (knowledge_base.py)\<close>

text \<open>
  The attributes of a \<open>KnowledgeBase\<close> object: the fields set by the constructor and the
  methods the class defines. Looking up any other name raises \<open>AttributeError\<close>.
\<close>

definition KnowledgeBase_attributes :: "string list" where
  "KnowledgeBase_attributes =
     [''config_manager'', ''kb_settings'', ''embedding_function'', ''db'', ''text_splitter'',
      ''process_document'', ''extract_text'', ''extract_text_from_pdf'',
      ''search_relevant_context'']"

definition KnowledgeBase_call :: "string \<Rightarrow> exn + 'a \<Rightarrow> exn + 'a" where
  "KnowledgeBase_call name body =
     (if name \<in> set KnowledgeBase_attributes then body
      else Inl (AttributeError ''KnowledgeBase'' name))"

text \<open>
  The ingestion side of the vector store and the text splitter are library code: the
  splitter returns the chunks of a text, \<open>add_documents\<close> may fail (the embedding call),
  and so may \<open>persist\<close>, whose failure is logged and otherwise ignored.
\<close>

record ingestion =
  split_text :: "string \<Rightarrow> exn + string list"
  add_documents_error :: "document list \<Rightarrow> exn option"
  persist_error :: "exn option"

fun pdf_text :: "(exn + string) list \<Rightarrow> string \<Rightarrow> string option" where
  "pdf_text [] text = Some text"
| "pdf_text (Inl e # pages) text = None"
| "pdf_text (Inr page # pages) text = pdf_text pages (text @ page @ ''\<newline>'')"

definition extract_text_from_pdf :: "env \<Rightarrow> string \<Rightarrow> string option" where
  "extract_text_from_pdf env file_path =
     (case pdf_reader env file_path of Inl e \<Rightarrow> None | Inr pages \<Rightarrow> pdf_text pages [])"

definition extract_text :: "env \<Rightarrow> string \<Rightarrow> string \<Rightarrow> string option" where
  "extract_text env file_path file_type =
     (if file_type = ''pdf'' then extract_text_from_pdf env file_path
      else if file_type = ''txt''
        then (case read_text env file_path of Inl e \<Rightarrow> None | Inr text \<Rightarrow> Some text)
      else if file_type = ''docx''
        then (case docx2txt_process env file_path of Inl e \<Rightarrow> None | Inr text \<Rightarrow> Some text)
      else None)"

text \<open>
  The body of the \<open>try\<close> in \<open>process_document\<close>: \<open>Inl\<close> is an exception on its way to the
  handler, \<open>Inr\<close> a returned pair with the knowledge base after it.
\<close>

definition process_document_body ::
  "env \<Rightarrow> ingestion \<Rightarrow> world \<Rightarrow> knowledge_base \<Rightarrow> string \<Rightarrow> string
     \<Rightarrow> (string \<times> string) list option \<Rightarrow> exn + ((bool \<times> string) \<times> knowledge_base)" where
  "process_document_body env ing w kb file_path file_type md =
     (case extract_text env file_path file_type of
        None \<Rightarrow> Inr ((False, ''Failed to extract text from document''), kb)
      | Some text \<Rightarrow>
          if text = [] then Inr ((False, ''Failed to extract text from document''), kb)
          else
            (let md0 = (case md of None \<Rightarrow> [] | Some d \<Rightarrow> d);
                 md1 = AList.update ''source'' file_path md0;
                 md2 = AList.update ''date_added'' (strftime env (clock w)) md1;
                 md3 = AList.update ''file_type'' file_type md2
             in case split_text ing text of
                  Inl e \<Rightarrow> Inl e
                | Inr chunks \<Rightarrow>
                    (let docs = map (\<lambda>chunk. \<lparr>page_content = chunk, metadata = md3\<rparr>) chunks
                     in case add_documents_error ing docs of
                          Some e \<Rightarrow> Inl e
                        | None \<Rightarrow>
                            (let kb1 = kb\<lparr>db_docs := db_docs kb @ docs\<rparr>;
                                 kb2 = (case persist_error ing of
                                          Some e \<Rightarrow> kb1
                                        | None \<Rightarrow> kb1\<lparr>db_persisted := db_docs kb1\<rparr>)
                             in Inr ((True, ''Successfully added '' @ str_of_nat (length docs)
                                              @ '' chunks to knowledge base''), kb2)))))"

definition process_document ::
  "env \<Rightarrow> ingestion \<Rightarrow> world \<Rightarrow> knowledge_base \<Rightarrow> string \<Rightarrow> string
     \<Rightarrow> (string \<times> string) list option \<Rightarrow> (bool \<times> string) \<times> knowledge_base" where
  "process_document env ing w kb file_path file_type md =
     (case process_document_body env ing w kb file_path file_type md of
        Inl e \<Rightarrow> ((False, ''Error processing document: '' @ str_of_exn e), kb)
      | Inr r \<Rightarrow> r)"

section \<open>The paper registry and paper summaries (arxiv_tools.py)\<close>

definition paper_details_path :: "config option \<Rightarrow> string" where
  "paper_details_path config_manager =
     (case config_manager of
        Some cfg \<Rightarrow> get_file_path cfg ''paper_details_file''
      | None \<Rightarrow> ''paper_details.json'')"

definition opt_str :: "string option \<Rightarrow> json" where
  "opt_str x = (case x of None \<Rightarrow> JNull | Some s \<Rightarrow> JStr s)"

definition paper_record ::
  "world \<Rightarrow> string \<Rightarrow> string \<Rightarrow> string \<Rightarrow> string option \<Rightarrow> string option \<Rightarrow> json" where
  "paper_record w paper_id title authors url summary =
     JObj [(''id'', JStr paper_id), (''title'', JStr title), (''authors'', JStr authors),
           (''url'', opt_str url), (''summary'', opt_str summary),
           (''last_accessed'', JNum (clock w))]"

definition load_paper_details :: "world \<Rightarrow> string \<Rightarrow> json" where
  "load_paper_details w path =
     (case fs_read w path of
        None \<Rightarrow> JObj []
      | Some Garbage \<Rightarrow> JObj []
      | Some (Json j) \<Rightarrow> j)"

definition save_paper_details ::
  "world \<Rightarrow> config option \<Rightarrow> string \<Rightarrow> string \<Rightarrow> string \<Rightarrow> string option \<Rightarrow> string option
     \<Rightarrow> bool \<times> world" where
  "save_paper_details w config_manager paper_id title authors url summary =
     (let paper_details_file = paper_details_path config_manager;
          paper_details = load_paper_details w paper_details_file
      in case py_setitem paper_details paper_id (paper_record w paper_id title authors url summary) of
           Inl e \<Rightarrow> (False, w)
         | Inr paper_details' \<Rightarrow>
             (case fs_write w paper_details_file paper_details' of
                Inl e \<Rightarrow> (False, w)
              | Inr w' \<Rightarrow> (True, w')))"

definition get_paper_details :: "world \<Rightarrow> config option \<Rightarrow> json" where
  "get_paper_details w config_manager = load_paper_details w (paper_details_path config_manager)"

definition cross_mark :: string where
  "cross_mark = [CHR 0xE2, CHR 0x9D, CHR 0x8C]"

definition check_mark :: string where
  "check_mark = [CHR 0xE2, CHR 0x9C, CHR 0x85]"

text \<open>
  \<open>summarize_arxiv_paper\<close> has no handler of its own around the registry lookups: an
  exception there (\<open>Inl\<close>) reaches the caller.
\<close>

definition summarize_arxiv_paper ::
  "env \<Rightarrow> world \<Rightarrow> string \<Rightarrow> bool \<Rightarrow> config option \<Rightarrow> knowledge_base option
     \<Rightarrow> claude_model option \<Rightarrow> (exn + string) \<times> world" where
  "summarize_arxiv_paper env w paper_id add_to_kb config_manager knowledge_base claude_model =
     (case fs_read w (paper_details_path config_manager) of
        None \<Rightarrow> (Inr ''No paper details found.'', w)
      | Some Garbage \<Rightarrow> (Inr ''No paper details found.'', w)
      | Some (Json papers) \<Rightarrow>
         (case py_get papers paper_id JNull of
            Inl e \<Rightarrow> (Inl e, w)
          | Inr paper \<Rightarrow>
             if \<not> py_truthy paper
             then (Inr (''No details found for paper ID '' @ paper_id @ ''.''), w)
             else
              (case py_getitem paper ''title'' of Inl e \<Rightarrow> (Inl e, w) | Inr title \<Rightarrow>
              (case py_getitem paper ''authors'' of Inl e \<Rightarrow> (Inl e, w) | Inr authors \<Rightarrow>
              (case py_get paper ''summary'' (JStr ''No abstract available.'') of
                 Inl e \<Rightarrow> (Inl e, w) | Inr abstract \<Rightarrow>
              (case py_get paper ''url'' (JStr ''N/A'') of Inl e \<Rightarrow> (Inl e, w) | Inr url \<Rightarrow>
               (let prompt = ''Please summarize the following research paper:\<newline>\<newline>''
                      @ ''Title: '' @ py_format (repr env) title @ ''\<newline>''
                      @ ''Authors: '' @ py_format (repr env) authors @ ''\<newline>''
                      @ ''Abstract: '' @ py_format (repr env) abstract @ ''\<newline>''
                      @ ''URL: '' @ py_format (repr env) url @ ''\<newline>''
                in case claude_model of
                     None \<Rightarrow> (Inr ''Claude model is not available for summarization.'', w)
                   | Some cm \<Rightarrow>
                      (let (summary, w1) = ClaudeModel_get_response cm w prompt None None
                       in if add_to_kb \<and> knowledge_base \<noteq> None
                          then
                            (let doc_content = ''Title: '' @ py_format (repr env) title
                                   @ ''\<newline>Authors: '' @ py_format (repr env) authors
                                   @ ''\<newline>\<newline>Summary:\<newline>'' @ summary;
                                 md = [(''source'', JStr ''arxiv''), (''paper_id'', JStr paper_id),
                                       (''title'', title), (''authors'', authors)]
                             in case KnowledgeBase_call ''add_document''
                                       (add_document_body env doc_content md) of
                                  Inl e \<Rightarrow>
                                    (Inr (summary @ ''\<newline>\<newline>'' @ cross_mark
                                           @ '' Error adding to knowledge base: '' @ str_of_exn e), w1)
                                | Inr success \<Rightarrow>
                                    if success
                                    then (Inr (summary @ ''\<newline>\<newline>'' @ check_mark
                                                 @ '' Added to knowledge base.''), w1)
                                    else (Inr (summary @ ''\<newline>\<newline>'' @ cross_mark
                                                 @ '' Failed to add to knowledge base.''), w1))
                          else (Inr summary, w1)))))))))"

section \<open>The command router (ui.py)\<close>

definition books :: string where
  "books = [CHR 0xF0, CHR 0x9F, CHR 0x93, CHR 0x9A]"

definition page_icon :: string where
  "page_icon = [CHR 0xF0, CHR 0x9F, CHR 0x93, CHR 0x84]"

definition magnifier :: string where
  "magnifier = [CHR 0xF0, CHR 0x9F, CHR 0x94, CHR 0x8D]"

definition calendar :: string where
  "calendar = [CHR 0xF0, CHR 0x9F, CHR 0x93, CHR 0x85]"

definition count_lines :: "env \<Rightarrow> (string \<times> json) list \<Rightarrow> string list" where
  "count_lines env kvs =
     map (\<lambda>(k, n). ''- '' @ k @ '': '' @ py_format (repr env) n @ '' documents'') kvs"

fun recent_lines :: "env \<Rightarrow> json list \<Rightarrow> string list \<Rightarrow> exn + string list" where
  "recent_lines env [] details = Inr details"
| "recent_lines env (doc # rest) details =
     (case py_getitem doc ''title'' of Inl e \<Rightarrow> Inl e | Inr title \<Rightarrow>
       (case py_getitem doc ''date_added'' of Inl e \<Rightarrow> Inl e | Inr date_added \<Rightarrow>
          recent_lines env rest
            (details @ [''- '' @ py_format (repr env) title @ '' (''
                          @ py_format (repr env) date_added @ '')''])))"

fun first_five :: "json \<Rightarrow> exn + json list" where
  "first_five (JArr xs) = Inr (take 5 xs)"
| "first_five (JStr s) = Inr (map (\<lambda>c. JStr [c]) (take 5 s))"
| "first_five j = Inl (TypeError (py_type_name j @ '' object is not subscriptable''))"

text \<open>The body of the \<open>try\<close> in \<open>_get_kb_info\<close> once \<open>stats\<close> is there.\<close>

definition kb_info_text :: "env \<Rightarrow> json \<Rightarrow> bool \<Rightarrow> exn + string" where
  "kb_info_text env stats detailed =
     (if \<not> detailed then
        (case py_getitem stats ''total_documents'' of Inl e \<Rightarrow> Inl e | Inr total_documents \<Rightarrow>
        (case py_getitem stats ''total_chunks'' of Inl e \<Rightarrow> Inl e | Inr total_chunks \<Rightarrow>
        (case py_getitem stats ''total_tokens'' of Inl e \<Rightarrow> Inl e | Inr total_tokens \<Rightarrow>
        (case py_getitem stats ''last_updated'' of Inl e \<Rightarrow> Inl e | Inr last_updated \<Rightarrow>
           Inr (books @ '' Knowledge Base Statistics:\<newline>''
                 @ ''Total Documents: '' @ py_format (repr env) total_documents @ ''\<newline>''
                 @ ''Total Chunks: '' @ py_format (repr env) total_chunks @ ''\<newline>''
                 @ ''Total Tokens: '' @ py_format (repr env) total_tokens @ ''\<newline>''
                 @ ''Last Updated: '' @ py_format (repr env) last_updated)))))
      else
        (case py_get stats ''document_types'' (JObj []) of Inl e \<Rightarrow> Inl e | Inr document_types \<Rightarrow>
        (case py_items document_types of Inl e \<Rightarrow> Inl e | Inr type_items \<Rightarrow>
        (case py_get stats ''sources'' (JObj []) of Inl e \<Rightarrow> Inl e | Inr sources \<Rightarrow>
        (case py_items sources of Inl e \<Rightarrow> Inl e | Inr source_items \<Rightarrow>
        (case py_get stats ''recent_documents'' (JArr []) of Inl e \<Rightarrow> Inl e | Inr recent \<Rightarrow>
        (case first_five recent of Inl e \<Rightarrow> Inl e | Inr recent5 \<Rightarrow>
        (case recent_lines env recent5
                ([books @ '' Knowledge Base Details:'', ''\<newline>'' @ page_icon @ '' Document Types:'']
                  @ count_lines env type_items
                  @ [''\<newline>'' @ magnifier @ '' Sources:'']
                  @ count_lines env source_items
                  @ [''\<newline>'' @ calendar @ '' Recent Documents:'']) of
           Inl e \<Rightarrow> Inl e
         | Inr details \<Rightarrow> Inr (join ''\<newline>'' details)))))))))"

definition get_kb_info :: "env \<Rightarrow> bool \<Rightarrow> string" where
  "get_kb_info env detailed =
     (case KnowledgeBase_call ''get_stats'' (get_stats_body env) of
        Inl e \<Rightarrow> ''Error getting knowledge base information: '' @ str_of_exn e
      | Inr stats \<Rightarrow>
          (case kb_info_text env stats detailed of
             Inl e \<Rightarrow> ''Error getting knowledge base information: '' @ str_of_exn e
           | Inr text \<Rightarrow> text))"

text \<open>
  The web search and the paper search are adapters around a vendor call; each catches
  every exception and returns text. The router uses only that text, given here by
  \<open>perplexity\<close> and \<open>arxiv\<close>. What the adapters write on their own (the search log, the
  registry entries of the papers found) is not followed.
\<close>

definition query_perplexity :: "env \<Rightarrow> world \<Rightarrow> string \<Rightarrow> string \<times> world" where
  "query_perplexity env w query = (perplexity env query, log_call (WebSearchCall query) w)"

definition search_arxiv :: "env \<Rightarrow> world \<Rightarrow> string \<Rightarrow> string \<times> world" where
  "search_arxiv env w query = (arxiv env query, log_call (ArxivSearchCall query) w)"

definition default_prompt :: "string \<Rightarrow> string \<Rightarrow> string" where
  "default_prompt message kb_results =
     ''Based on the following context from our knowledge base, please answer the user's question.\<newline>                                If the context doesn't fully answer the question, you can use your general knowledge to supplement the answer.\<newline>\<newline>                                User's question: ''
       @ message @
     ''\<newline>\<newline>                                Relevant context from knowledge base:\<newline>                                ''
       @ kb_results @
     ''\<newline>\<newline>                                Please provide a comprehensive answer that combines the knowledge base information with your general knowledge if needed.\<newline>                                ''"

definition turn :: "message list \<Rightarrow> string \<Rightarrow> string \<Rightarrow> message list" where
  "turn history message result =
     history @ [\<lparr>role = ''user'', content = message\<rparr>, \<lparr>role = ''assistant'', content = result\<rparr>]"

text \<open>
  The body of the \<open>try\<close> in \<open>chat\<close>: the prefix tests in the source's order, each on
  \<open>message.lower()\<close>, each slicing \<open>message\<close> at the source's index.
\<close>

definition chat_body ::
  "env \<Rightarrow> config \<Rightarrow> knowledge_base \<Rightarrow> memory \<Rightarrow> world \<Rightarrow> string \<Rightarrow> message list
     \<Rightarrow> (exn + message list) \<times> world" where
  "chat_body env cfg kb m w message history =
     (let lowered = py_lower message
      in if startswith lowered ''search arxiv:'' then
           (let query = py_strip (drop 13 message);
                (result, w1) = search_arxiv env w query
            in (Inr (turn history message result), w1))
         else if startswith lowered ''summarize arxiv:'' then
           (let paper_id = py_strip (drop 15 message)
            in case summarize_arxiv_paper env w paper_id True (Some cfg) (Some kb) (Some (claude m)) of
                 (Inl e, w1) \<Rightarrow> (Inl e, w1)
               | (Inr result, w1) \<Rightarrow> (Inr (turn history message result), w1))
         else if startswith lowered ''search kb:'' then
           (let query = py_strip (drop 10 message);
                w1 = log_call (RetrievalCall query 5) w;
                kb_results = search_relevant_context (format_2f env) kb query 5;
                result = books @ '' Knowledge Base Search Results for '' @ [CHR 0x27] @ query
                           @ [CHR 0x27] @ '':\<newline>\<newline>'' @ kb_results
            in (Inr (turn history message result), w1))
         else if startswith lowered ''check kb'' then
           (let detailed = (contains ''detail'' lowered \<or> contains ''full'' lowered);
                result = get_kb_info env detailed
            in (Inr (turn history message result), w))
         else if startswith lowered ''perplexity:'' then
           (let query = py_strip (drop 11 message);
                (result, w1) = query_perplexity env w query
            in (Inr (turn history message result), w1))
         else
           (let w1 = log_call (RetrievalCall message 3) w;
                kb_results = search_relevant_context (format_2f env) kb message 3
            in if kb_results \<noteq> [] \<and> length (py_strip kb_results) > 0
               then (let prompt = default_prompt message kb_results;
                         (response, w2) = ClaudeModel_get_response (claude m) w1 prompt None None
                     in (Inr (turn history message response), w2))
               else (let (response, w2) = query_perplexity env w1 message
                     in (Inr (turn history message response), w2))))"

definition chat ::
  "env \<Rightarrow> config \<Rightarrow> knowledge_base \<Rightarrow> memory \<Rightarrow> world \<Rightarrow> string \<Rightarrow> message list
     \<Rightarrow> (message list \<times> string) \<times> world" where
  "chat env cfg kb m w message history =
     (if py_strip message = [] then ((history, []), w)
      else case chat_body env cfg kb m w message history of
             (Inr new_history, w1) \<Rightarrow> ((new_history, []), w1)
           | (Inl e, w1) \<Rightarrow>
               ((turn history message (''I encountered an error: '' @ str_of_exn e), []), w1))"

definition clear_chat :: "world \<Rightarrow> memory \<Rightarrow> (message list \<times> string) \<times> world \<times> memory" where
  "clear_chat w m = (let (w1, m1) = reset w m in (([], []), w1, m1))"

section \<open>Reading the call record\<close>

text \<open>The calls a step added, and the history argument of each generation call among them.\<close>

definition new_calls :: "world \<Rightarrow> world \<Rightarrow> call list" where
  "new_calls w w' = drop (length (calls w)) (calls w')"

fun generation_histories :: "call list \<Rightarrow> message list option list" where
  "generation_histories [] = []"
| "generation_histories (GenerationCall q h c # cs) = h # generation_histories cs"
| "generation_histories (SummaryCall # cs) = generation_histories cs"
| "generation_histories (WebSearchCall q # cs) = generation_histories cs"
| "generation_histories (ArxivSearchCall q # cs) = generation_histories cs"
| "generation_histories (RetrievalCall q k # cs) = generation_histories cs"

definition summary_count :: "call list \<Rightarrow> nat" where
  "summary_count cs = length (filter (\<lambda>c. c = SummaryCall) cs)"

definition extraction_raises :: "env \<Rightarrow> string \<Rightarrow> string \<Rightarrow> bool" where
  "extraction_raises env file_path file_type =
     ((file_type = ''pdf'' \<and>
         (case pdf_reader env file_path of Inl e \<Rightarrow> True | Inr pages \<Rightarrow> list_ex isl pages))
      \<or> (file_type = ''txt'' \<and> isl (read_text env file_path))
      \<or> (file_type = ''docx'' \<and> isl (docx2txt_process env file_path)))"

text \<open>The context and the summary message that \<open>get_response\<close> builds.\<close>

definition turn_context :: "env \<Rightarrow> world \<Rightarrow> memory \<Rightarrow> string option \<Rightarrow> string" where
  "turn_context env w m context =
     (case context of None \<Rightarrow> [] | Some c \<Rightarrow> if c = [] then [] else c @ ''\<newline>\<newline>'')
       @ ''Papers discussed: '' @ get_paper_details_context env w m"

definition history_context_of :: "string \<Rightarrow> string" where
  "history_context_of summary = ''Here's a summary of our conversation so far:\<newline>'' @ summary @ ''\<newline>\<newline>''"

section \<open>Sample objects\<close>

definition sample_env :: env where
  "sample_env =
     \<lparr>format_2f = (\<lambda>x. if x = 0.9 then ''0.90'' else ''0.50''),
      repr = (\<lambda>j. ''0.0''),
      summarize = (\<lambda>msgs buf. Inr ''earlier turns''),
      perplexity = (\<lambda>q. ''web answer''),
      arxiv = (\<lambda>q. ''paper list''),
      strftime = (\<lambda>t. ''2025-01-01 00:00:00''),
      read_text = (\<lambda>p. if p = ''notes.txt'' then Inr ''lightning network notes''
                        else Inl (ExternalError ''No such file'')),
      pdf_reader = (\<lambda>p. Inl (ExternalError ''EOF marker not found'')),
      docx2txt_process = (\<lambda>p. Inl (ExternalError ''File is not a zip file'')),
      get_stats_body = Inr (JObj []),
      add_document_body = (\<lambda>text md. Inr True)\<rparr>"

definition sample_claude :: claude_model where
  "sample_claude = \<lparr>invoke = (\<lambda>msgs. Inr ''model answer'')\<rparr>"

definition sample_paper :: json where
  "sample_paper =
     JObj [(''id'', JStr ''2201.12345''), (''title'', JStr ''Channels''),
           (''authors'', JStr ''A. Author''), (''url'', JNull), (''summary'', JStr ''An abstract.''),
           (''last_accessed'', JNum 0)]"

definition sample_registry :: json where
  "sample_registry = JObj [(''2201.12345'', sample_paper)]"

definition sample_log :: "message list" where
  "sample_log = [\<lparr>role = ''user'', content = ''hi''\<rparr>, \<lparr>role = ''assistant'', content = ''hello''\<rparr>]"

definition sample_world :: world where
  "sample_world =
     \<lparr>fs = [''paper_details.json'' \<mapsto> Json sample_registry,
             ''conversation_history.json'' \<mapsto> Json (JArr (map json_of_message sample_log))],
      write_fails = (\<lambda>p. False),
      clock = 0,
      uuid_source = (\<lambda>n. if n = 1 then ''session-1'' else ''session-n''),
      uuid_count = 1,
      calls = []\<rparr>"

definition sample_cfg :: config where
  "sample_cfg =
     \<lparr>files = [(''memory_file'', ''conversation_history.json''),
               (''paper_details_file'', ''paper_details.json'')]\<rparr>"

definition sample_memory :: memory where
  "sample_memory =
     \<lparr>claude = sample_claude, thread_id = ''session-0'', messages = sample_log,
      memory_file = ''conversation_history.json'', paper_details_file = ''paper_details.json'',
      summary_memory = \<lparr>chat_memory = [HumanMessage ''hi'', AIMessage ''hello''], buffer = []\<rparr>\<rparr>"

text \<open>A memory after \<open>n\<close> stored turns of the sample exchange.\<close>

definition memory_after :: "nat \<Rightarrow> memory" where
  "memory_after n =
     sample_memory\<lparr>messages := concat (replicate n sample_log),
                    summary_memory := \<lparr>chat_memory = concat (replicate n [HumanMessage ''hi'', AIMessage ''hello'']),
                                       buffer = []\<rparr>\<rparr>"

text \<open>An empty knowledge base, and one whose store ranks three passages.\<close>

definition empty_kb :: knowledge_base where
  "empty_kb =
     \<lparr>relevance_threshold = Some 0.2, db_docs = [], db_persisted = [],
      db_search = (\<lambda>docs q k. Inr [])\<rparr>"

definition sample_docs :: "document list" where
  "sample_docs =
     [\<lparr>page_content = ''Payment channels.'', metadata = [(''source'', ''/docs/ln.txt''), (''file_type'', ''txt'')]\<rparr>,
      \<lparr>page_content = ''Mining.'', metadata = [(''source'', ''/docs/mining.txt''), (''file_type'', ''txt'')]\<rparr>,
      \<lparr>page_content = ''Recipes.'', metadata = [(''source'', ''/docs/cook.txt''), (''file_type'', ''txt'')]\<rparr>]"

definition sample_kb :: knowledge_base where
  "sample_kb =
     \<lparr>relevance_threshold = None, db_docs = sample_docs, db_persisted = sample_docs,
      db_search = (\<lambda>docs q k. Inr (zip docs [0.9, 0.2, 0.1]))\<rparr>"

definition sample_ingestion :: ingestion where
  "sample_ingestion =
     \<lparr>split_text = (\<lambda>text. Inr [text]), add_documents_error = (\<lambda>docs. None), persist_error = None\<rparr>"

definition failing_ingestion :: ingestion where
  "failing_ingestion =
     \<lparr>split_text = (\<lambda>text. Inr [text]),
      add_documents_error = (\<lambda>docs. Some (ExternalError ''Connection error.'')),
      persist_error = None\<rparr>"

text \<open>What \<open>_get_kb_info\<close> returns when the lookup of \<open>get_stats\<close> raises.\<close>

definition get_stats_missing :: string where
  "get_stats_missing =
     ''Error getting knowledge base information: '' @ [CHR 0x27] @ ''KnowledgeBase'' @ [CHR 0x27]
       @ '' object has no attribute '' @ [CHR 0x27] @ ''get_stats'' @ [CHR 0x27]"

text \<open>An utterance that none of the router's prefix tests matches.\<close>

definition unprefixed :: "string \<Rightarrow> bool" where
  "unprefixed message =
     (\<not> list_ex (startswith (py_lower message))
          [''search arxiv:'', ''summarize arxiv:'', ''search kb:'', ''check kb'', ''perplexity:''])"

text \<open>What \<open>summarize_arxiv_paper\<close> appends when the lookup of \<open>add_document\<close> raises.\<close>

definition add_document_missing :: string where
  "add_document_missing =
     ''\<newline>\<newline>'' @ cross_mark @ '' Error adding to knowledge base: '' @ [CHR 0x27] @ ''KnowledgeBase''
       @ [CHR 0x27] @ '' object has no attribute '' @ [CHR 0x27] @ ''add_document'' @ [CHR 0x27]"

section \<open>Retrieval: lemmas\<close>

lemma collect_results_filter:
  "collect_results fmt2f thr results acc =
     acc @ map (\<lambda>(doc, score). format_result fmt2f doc score) (surviving thr results)"
  by (induction results arbitrary: acc) (auto simp: surviving_def)

lemma surviving_above: "(doc, score) \<in> set (surviving thr results) \<Longrightarrow> score > thr"
  by (simp add: surviving_def)

lemma surviving_descending:
  "sorted_wrt (\<lambda>a b. snd a \<ge> snd b) results \<Longrightarrow>
   sorted_wrt (\<lambda>a b. snd a \<ge> snd b) (surviving thr results)"
  by (simp add: surviving_def sorted_wrt_filter)

lemma search_cases:
  "search_relevant_context fmt2f kb query top_k =
     (case db_search kb (db_docs kb) query top_k of
        Inl e \<Rightarrow> error_retrieving
      | Inr results \<Rightarrow>
          if surviving (threshold_of kb) results = [] then no_relevant
          else join ''\<newline>\<newline>''
                 (map (\<lambda>(doc, score). format_result fmt2f doc score)
                      (surviving (threshold_of kb) results)))"
  by (simp add: search_relevant_context_def collect_results_filter threshold_of_def Let_def
           split: sum.splits)

lemma py_strip_nonempty:
  assumes "\<not> py_isspace c"
  shows "py_strip (c # cs) \<noteq> []"
proof -
  have "dropWhile py_isspace (c # cs) = c # cs"
    using assms by simp
  moreover have "dropWhile py_isspace (rev (c # cs)) \<noteq> []"
    using assms by (auto simp: dropWhile_eq_Nil_conv)
  ultimately show ?thesis
    by (simp add: py_strip_def)
qed

lemma format_result_head: "\<exists>t. format_result fmt2f doc score = CHR ''S'' # t"
  by (simp add: format_result_def Let_def)

lemma join_head: "x = c # t \<Longrightarrow> \<exists>t'. join sep (x # xs) = c # t'"
  by (cases xs) auto

lemma letters_not_space:
  "\<not> py_isspace (CHR ''S'')" "\<not> py_isspace (CHR ''N'')" "\<not> py_isspace (CHR ''E'')"
  by (simp_all add: py_isspace_def)

lemma formatted_head:
  assumes "xs \<noteq> []"
  shows "\<exists>t. join sep (map (\<lambda>(doc, score). format_result fmt2f doc score) xs) = CHR ''S'' # t"
proof -
  from assms obtain d s rest where xs: "xs = (d, s) # rest"
    by (cases xs) auto
  obtain t where "format_result fmt2f d s = CHR ''S'' # t"
    using format_result_head by blast
  then show ?thesis
    unfolding xs using join_head by fastforce
qed

lemma search_head:
  "\<exists>c t. search_relevant_context fmt2f kb query top_k = c # t \<and> \<not> py_isspace c"
proof (cases "db_search kb (db_docs kb) query top_k")
  case (Inl e)
  then show ?thesis
    by (simp add: search_cases error_retrieving_def letters_not_space)
next
  case (Inr results)
  show ?thesis
  proof (cases "surviving (threshold_of kb) results = []")
    case True
    then show ?thesis
      using Inr by (simp add: search_cases no_relevant_def letters_not_space)
  next
    case False
    then obtain t where
      "join ''\<newline>\<newline>''
         (map (\<lambda>(doc, score). format_result fmt2f doc score)
              (surviving (threshold_of kb) results)) = CHR ''S'' # t"
      using formatted_head by blast
    then show ?thesis
      using Inr False by (simp add: search_cases letters_not_space)
  qed
qed

text \<open>
  C4. Retrieval keeps exactly the candidates whose score is above the configured
  threshold (0.2 when none is configured), renders them in the order the similarity
  search returned them (so a descending ranking stays descending), and returns the
  sentinel \<open>No relevant information found in knowledge base.\<close> when none is left, as
  it does for an empty result of the search.
\<close>

theorem retrieval_threshold_order_sentinel:
  assumes "db_search kb (db_docs kb) query top_k = Inr results"
  shows "search_relevant_context fmt2f kb query top_k =
           (if surviving (threshold_of kb) results = [] then no_relevant
            else join ''\<newline>\<newline>''
                   (map (\<lambda>(doc, score). format_result fmt2f doc score)
                        (surviving (threshold_of kb) results)))
         \<and> (\<forall>c \<in> set (surviving (threshold_of kb) results). snd c > threshold_of kb)
         \<and> (\<forall>c \<in> set results. snd c \<le> threshold_of kb
               \<longrightarrow> c \<notin> set (surviving (threshold_of kb) results))
         \<and> subseq (surviving (threshold_of kb) results) results
         \<and> (sorted_wrt (\<lambda>a b. snd a \<ge> snd b) results
               \<longrightarrow> sorted_wrt (\<lambda>a b. snd a \<ge> snd b) (surviving (threshold_of kb) results))
         \<and> (relevance_threshold kb = None \<longrightarrow> threshold_of kb = 0.2)
         \<and> (results = [] \<longrightarrow> search_relevant_context fmt2f kb query top_k = no_relevant)
         \<and> no_relevant = ''No relevant information found in knowledge base.''"
proof -
  have out: "search_relevant_context fmt2f kb query top_k =
           (if surviving (threshold_of kb) results = [] then no_relevant
            else join ''\<newline>\<newline>''
                   (map (\<lambda>(doc, score). format_result fmt2f doc score)
                        (surviving (threshold_of kb) results)))"
    using assms by (simp add: search_cases)
  have above: "\<forall>c \<in> set (surviving (threshold_of kb) results). snd c > threshold_of kb"
    by (auto simp: surviving_def)
  have below: "\<forall>c \<in> set results. snd c \<le> threshold_of kb
                 \<longrightarrow> c \<notin> set (surviving (threshold_of kb) results)"
    by (auto simp: surviving_def)
  have sub: "subseq (surviving (threshold_of kb) results) results"
    by (simp add: surviving_def)
  have desc: "sorted_wrt (\<lambda>a b. snd a \<ge> snd b) results
                \<longrightarrow> sorted_wrt (\<lambda>a b. snd a \<ge> snd b) (surviving (threshold_of kb) results)"
    using surviving_descending by blast
  have dflt: "relevance_threshold kb = None \<longrightarrow> threshold_of kb = 0.2"
    by (simp add: threshold_of_def)
  have empty: "results = [] \<longrightarrow> search_relevant_context fmt2f kb query top_k = no_relevant"
    using out by (simp add: surviving_def)
  show ?thesis
    using out above below sub desc dflt empty by (simp add: no_relevant_def)
qed

theorem retrieval_threshold_order_sentinel_witness:
  "db_search sample_kb (db_docs sample_kb) ''lightning'' 3 = Inr (zip sample_docs [0.9, 0.2, 0.1])
   \<and> threshold_of sample_kb = 0.2
   \<and> surviving (threshold_of sample_kb) (zip sample_docs [0.9, 0.2, 0.1]) = [(hd sample_docs, 0.9)]
   \<and> search_relevant_context (format_2f sample_env) sample_kb ''lightning'' 3 =
       ''Source: ln.txt (txt)\<newline>Relevance: 0.90\<newline>Content: Payment channels.\<newline>''"
proof -
  have h: "db_search sample_kb (db_docs sample_kb) ''lightning'' 3 = Inr (zip sample_docs [0.9, 0.2, 0.1])"
    by (simp add: sample_kb_def)
  have t: "threshold_of sample_kb = 0.2"
    by (simp add: threshold_of_def sample_kb_def)
  have s: "surviving (threshold_of sample_kb) (zip sample_docs [0.9, 0.2, 0.1]) = [(hd sample_docs, 0.9)]"
    by (simp add: t surviving_def sample_docs_def)
  have main: "search_relevant_context (format_2f sample_env) sample_kb ''lightning'' 3 =
      join ''\<newline>\<newline>''
        (map (\<lambda>(doc, score). format_result (format_2f sample_env) doc score) [(hd sample_docs, 0.9)])"
  proof -
    from retrieval_threshold_order_sentinel [OF h, of "format_2f sample_env"]
    have "search_relevant_context (format_2f sample_env) sample_kb ''lightning'' 3 =
           (if surviving (threshold_of sample_kb) (zip sample_docs [0.9, 0.2, 0.1]) = [] then no_relevant
            else join ''\<newline>\<newline>''
                   (map (\<lambda>(doc, score). format_result (format_2f sample_env) doc score)
                        (surviving (threshold_of sample_kb) (zip sample_docs [0.9, 0.2, 0.1]))))"
      by (rule conjunct1)
    then show ?thesis
      unfolding s by simp
  qed
  have rendered: "join ''\<newline>\<newline>''
        (map (\<lambda>(doc, score). format_result (format_2f sample_env) doc score) [(hd sample_docs, 0.9)])
      = ''Source: ln.txt (txt)\<newline>Relevance: 0.90\<newline>Content: Payment channels.\<newline>''"
    by (simp add: sample_docs_def sample_env_def format_result_def md_get_def basename_def)
  show ?thesis
    using h t s main rendered by simp
qed

text \<open>
  C10. For every query and every \<open>top_k\<close>, retrieval returns one of three non-empty
  strings: the fixed error string when the search raises, the sentinel when no candidate
  is above the threshold, and the formatted passages otherwise. The result is never
  empty, also after stripping whitespace, so the test
  \<open>kb_results and len(kb_results.strip()) > 0\<close> holds of every outcome.
\<close>

theorem search_relevant_context_never_empty:
  "search_relevant_context fmt2f kb query top_k \<noteq> []
   \<and> py_strip (search_relevant_context fmt2f kb query top_k) \<noteq> []
   \<and> (case db_search kb (db_docs kb) query top_k of
         Inl e \<Rightarrow>
           search_relevant_context fmt2f kb query top_k
             = ''Error retrieving information from knowledge base.''
       | Inr results \<Rightarrow>
           if surviving (threshold_of kb) results = []
           then search_relevant_context fmt2f kb query top_k
                  = ''No relevant information found in knowledge base.''
           else search_relevant_context fmt2f kb query top_k
                  = join ''\<newline>\<newline>''
                      (map (\<lambda>(doc, score). format_result fmt2f doc score)
                           (surviving (threshold_of kb) results)))"
proof -
  obtain c t where ct: "search_relevant_context fmt2f kb query top_k = c # t" "\<not> py_isspace c"
    using search_head by blast
  have "py_strip (search_relevant_context fmt2f kb query top_k) \<noteq> []"
    using ct py_strip_nonempty by simp
  moreover have "search_relevant_context fmt2f kb query top_k \<noteq> []"
    using ct by simp
  ultimately show ?thesis
    by (simp add: search_cases no_relevant_def error_retrieving_def split: sum.splits)
qed

section \<open>Conversation memory: the history policy\<close>

lemma calls_log_call [simp]: "calls (log_call c w) = calls w @ [c]"
  by (simp add: log_call_def)

lemma fs_log_call [simp]: "fs (log_call c w) = fs w"
  by (simp add: log_call_def)

lemma write_fails_log_call [simp]: "write_fails (log_call c w) = write_fails w"
  by (simp add: log_call_def)

lemma calls_save_messages [simp]: "calls (save_messages w m) = calls w"
  by (auto simp: save_messages_def fs_write_def split: sum.splits)

lemma calls_add_message [simp]: "calls (fst (add_message w m t h)) = calls w"
  by (simp add: add_message_def Let_def)

lemma calls_store_turn [simp]: "calls (fst (snd (store_turn w m q r))) = calls w"
proof -
  obtain w1 m1 where a: "add_message w m q True = (w1, m1)" by (cases "add_message w m q True")
  obtain w2 m2 where b: "add_message w1 m1 r False = (w2, m2)" by (cases "add_message w1 m1 r False")
  have "calls w1 = calls w" using calls_add_message [of w m q True] a by simp
  moreover have "calls w2 = calls w1" using calls_add_message [of w1 m1 r False] b by simp
  ultimately show ?thesis by (simp add: store_turn_def a b)
qed

lemma ClaudeModel_get_response_calls [simp]:
  "calls (snd (ClaudeModel_get_response cm w msg h c)) = calls w @ [GenerationCall msg h c]"
  by (simp add: ClaudeModel_get_response_def Let_def split: sum.splits)

lemma get_paper_details_context_log_call [simp]:
  "get_paper_details_context env (log_call c w) m = get_paper_details_context env w m"
  by (simp add: get_paper_details_context_def PenelopeMemory_get_paper_details_def fs_read_def)

lemma get_response_calls_verbatim:
  assumes "length (messages m) < 10"
  shows "calls (fst (snd (PenelopeMemory_get_response env w m query context))) =
           calls w @ [GenerationCall query (Some (messages m)) (Some (turn_context env w m context))]"
  using assms
  by (simp add: PenelopeMemory_get_response_def Let_def turn_context_def case_prod_beta)

lemma get_response_calls_summarized:
  assumes "length (messages m) \<ge> 10"
  shows "calls (fst (snd (PenelopeMemory_get_response env w m query context))) =
           calls w @
            (case summarize env (chat_memory (summary_memory m)) (buffer (summary_memory m)) of
               Inl e \<Rightarrow> [SummaryCall]
             | Inr summary \<Rightarrow>
                 (if length (messages m) mod 10 = 0 then [SummaryCall, SummaryCall] else [SummaryCall])
                 @ [GenerationCall query (Some (summary_history (history_context_of summary)))
                      (Some (history_context_of summary @ turn_context env w m context))])"
proof (cases "summarize env (chat_memory (summary_memory m)) (buffer (summary_memory m))")
  case (Inl e)
  then show ?thesis
    using assms
    by (simp add: PenelopeMemory_get_response_def Let_def load_memory_variables_def case_prod_beta)
next
  case (Inr summary)
  then show ?thesis
    using assms
    by (simp add: PenelopeMemory_get_response_def Let_def load_memory_variables_def case_prod_beta
        turn_context_def history_context_of_def)
qed


lemma new_calls_append [simp]: "calls w' = calls w @ cs \<Longrightarrow> new_calls w w' = cs"
  by (simp add: new_calls_def)

text \<open>
  C3. While fewer than 10 messages are stored, the one generation call of a turn gets the
  full message list as its history. From 10 stored messages on, the generation call gets
  the two-message history instead: a user message holding the conversation summary and
  the fixed assistant acknowledgement. (If the summarizer raises, the turn makes no
  generation call.)
\<close>

theorem get_response_history_policy:
  "(length (messages m) < 10 \<longrightarrow>
      generation_histories
        (new_calls w (fst (snd (PenelopeMemory_get_response env w m query context))))
        = [Some (messages m)])
   \<and> (length (messages m) \<ge> 10 \<longrightarrow>
      generation_histories
        (new_calls w (fst (snd (PenelopeMemory_get_response env w m query context))))
        = (case summarize env (chat_memory (summary_memory m)) (buffer (summary_memory m)) of
             Inl e \<Rightarrow> []
           | Inr summary \<Rightarrow>
               [Some [\<lparr>role = ''user'', content = history_context_of summary\<rparr>,
                      \<lparr>role = ''assistant'', content = summary_ack\<rparr>]]))"
proof (intro conjI impI)
  assume "length (messages m) < 10"
  then show "generation_histories
        (new_calls w (fst (snd (PenelopeMemory_get_response env w m query context))))
        = [Some (messages m)]"
    using get_response_calls_verbatim [of m env w query "context"] by simp
next
  assume "length (messages m) \<ge> 10"
  then show "generation_histories
        (new_calls w (fst (snd (PenelopeMemory_get_response env w m query context))))
        = (case summarize env (chat_memory (summary_memory m)) (buffer (summary_memory m)) of
             Inl e \<Rightarrow> []
           | Inr summary \<Rightarrow>
               [Some [\<lparr>role = ''user'', content = history_context_of summary\<rparr>,
                      \<lparr>role = ''assistant'', content = summary_ack\<rparr>]])"
    using get_response_calls_summarized [of m env w query "context"]
    by (simp add: summary_history_def split: sum.splits)
qed

lemma length_memory_after: "length (messages (memory_after n)) = 2 * n"
  by (induction n) (simp_all add: memory_after_def sample_log_def)

lemma summarize_sample: "summarize sample_env a b = Inr ''earlier turns''"
  by (simp add: sample_env_def)

theorem get_response_history_policy_witness:
  "length (messages (memory_after 1)) < 10
   \<and> generation_histories
        (new_calls sample_world
          (fst (snd (PenelopeMemory_get_response sample_env sample_world (memory_after 1) ''next'' None))))
        = [Some sample_log]
   \<and> length (messages (memory_after 6)) \<ge> 10
   \<and> generation_histories
        (new_calls sample_world
          (fst (snd (PenelopeMemory_get_response sample_env sample_world (memory_after 6) ''next'' None))))
        = [Some [\<lparr>role = ''user'',
                   content = ''Here's a summary of our conversation so far:\<newline>earlier turns\<newline>\<newline>''\<rparr>,
                 \<lparr>role = ''assistant'', content = summary_ack\<rparr>]]"
proof -
  have a: "length (messages (memory_after 1)) < 10"
    by (simp add: length_memory_after)
  have b: "length (messages (memory_after 6)) \<ge> 10"
    by (simp add: length_memory_after)
  have c: "messages (memory_after 1) = sample_log"
    by (simp add: memory_after_def)
  show ?thesis
    using get_response_history_policy [of "memory_after 1" sample_world sample_env "''next''" None]
      get_response_history_policy [of "memory_after 6" sample_world sample_env "''next''" None]
      a b c
    by (simp add: summarize_sample history_context_of_def)
qed

lemma summary_calls_per_turn:
  "summary_count (new_calls w (fst (snd (PenelopeMemory_get_response env w m query context)))) =
     (if length (messages m) < 10 then 0
      else case summarize env (chat_memory (summary_memory m)) (buffer (summary_memory m)) of
             Inl e \<Rightarrow> 1
           | Inr summary \<Rightarrow> if length (messages m) mod 10 = 0 then 2 else 1)"
proof (cases "length (messages m) < 10")
  case True
  then show ?thesis
    using get_response_calls_verbatim [of m env w query "context"]
    by (simp add: summary_count_def)
next
  case False
  then have "length (messages m) \<ge> 10" by simp
  then show ?thesis
    using get_response_calls_summarized [of m env w query "context"] False
    by (simp add: summary_count_def split: sum.splits)
qed

text \<open>
  C6 says the summary is computed once per crossing of a multiple of 10 and not on every
  turn. The code at 12 stored messages, not a multiple of 10, asks the summarizer once;
  at 10 stored messages it asks twice.
\<close>

theorem summary_loaded_on_every_late_turn:
  "length (messages (memory_after 6)) = 12
   \<and> summary_count
        (new_calls sample_world
          (fst (snd (PenelopeMemory_get_response sample_env sample_world (memory_after 6) ''next'' None))))
        = 1
   \<and> length (messages (memory_after 5)) = 10
   \<and> summary_count
        (new_calls sample_world
          (fst (snd (PenelopeMemory_get_response sample_env sample_world (memory_after 5) ''next'' None))))
        = 2"
  by (simp add: summary_calls_per_turn length_memory_after summarize_sample)

section \<open>Document ingestion: failures\<close>

lemma pdf_text_raises: "list_ex isl pages \<Longrightarrow> pdf_text pages acc = None"
proof (induction pages arbitrary: acc)
  case Nil
  then show ?case by simp
next
  case (Cons p pages)
  then show ?case by (cases p) auto
qed

lemma extract_text_None:
  assumes "file_type \<notin> {''pdf'', ''txt'', ''docx''} \<or> extraction_raises env file_path file_type"
  shows "extract_text env file_path file_type = None"
  using assms
  by (auto simp: extract_text_def extraction_raises_def extract_text_from_pdf_def pdf_text_raises
      isl_def split: sum.splits)

text \<open>
  C7. Ingestion of a document whose declared type is not pdf, txt or docx, or whose text
  extraction raises, returns the failure pair (\<open>False\<close> and a message) and leaves the
  knowledge base as it was; no exception reaches the handler of \<open>process_document\<close>
  in that case, and any exception that does reach it is turned into a failure pair.
\<close>

theorem process_document_failure_result:
  "(file_type \<notin> {''pdf'', ''txt'', ''docx''} \<or> extraction_raises env file_path file_type \<longrightarrow>
      process_document_body env ing w kb file_path file_type md
        = Inr ((False, ''Failed to extract text from document''), kb)
      \<and> process_document env ing w kb file_path file_type md
        = ((False, ''Failed to extract text from document''), kb))
   \<and> (\<forall>e. process_document_body env ing w kb file_path file_type md = Inl e \<longrightarrow>
         process_document env ing w kb file_path file_type md
           = ((False, ''Error processing document: '' @ str_of_exn e), kb))"
proof -
  have "process_document_body env ing w kb file_path file_type md
        = Inr ((False, ''Failed to extract text from document''), kb)"
    if "file_type \<notin> {''pdf'', ''txt'', ''docx''} \<or> extraction_raises env file_path file_type"
    using extract_text_None [OF that] by (simp add: process_document_body_def)
  then show ?thesis
    by (simp add: process_document_def)
qed

theorem process_document_failure_result_witness:
  "''exe'' \<notin> {''pdf'', ''txt'', ''docx''}
   \<and> process_document sample_env sample_ingestion sample_world empty_kb ''tool.exe'' ''exe'' None
       = ((False, ''Failed to extract text from document''), empty_kb)
   \<and> extraction_raises sample_env ''paper.pdf'' ''pdf''
   \<and> process_document sample_env sample_ingestion sample_world empty_kb ''paper.pdf'' ''pdf'' None
       = ((False, ''Failed to extract text from document''), empty_kb)
   \<and> process_document_body sample_env failing_ingestion sample_world empty_kb ''notes.txt'' ''txt'' None
       = Inl (ExternalError ''Connection error.'')
   \<and> process_document sample_env failing_ingestion sample_world empty_kb ''notes.txt'' ''txt'' None
       = ((False, ''Error processing document: Connection error.''), empty_kb)"
proof -
  have a: "''exe'' \<notin> {''pdf'', ''txt'', ''docx''}"
    by simp
  have b: "extraction_raises sample_env ''paper.pdf'' ''pdf''"
    by (simp add: extraction_raises_def sample_env_def)
  have c: "process_document_body sample_env failing_ingestion sample_world empty_kb ''notes.txt'' ''txt'' None
       = Inl (ExternalError ''Connection error.'')"
    by (simp add: process_document_body_def extract_text_def sample_env_def failing_ingestion_def Let_def)
  show ?thesis
    using process_document_failure_result
            [of "''exe''" sample_env "''tool.exe''" sample_ingestion sample_world empty_kb None]
          process_document_failure_result
            [of "''pdf''" sample_env "''paper.pdf''" sample_ingestion sample_world empty_kb None]
          process_document_failure_result
            [of "''txt''" sample_env "''notes.txt''" failing_ingestion sample_world empty_kb None]
          a b c
    by simp
qed

section \<open>Reset and persistence\<close>

lemma fs_save_messages_other:
  "path \<noteq> memory_file m \<Longrightarrow> fs (save_messages w m) path = fs w path"
  by (simp add: save_messages_def fs_write_def)

lemma fs_save_messages_log:
  "memory_file m \<noteq> [] \<Longrightarrow> \<not> write_fails w (memory_file m) \<Longrightarrow>
   fs (save_messages w m) (memory_file m) = Some (Json (JArr (map json_of_message (messages m))))"
  by (simp add: save_messages_def fs_write_def)

lemma uuid_count_save_messages [simp]: "uuid_count (save_messages w m) = uuid_count w"
  by (simp add: save_messages_def fs_write_def)

lemma message_of_json_roundtrip [simp]: "message_of_json (json_of_message msg) = Some msg"
  by (simp add: message_of_json_def json_of_message_def)

lemma those_roundtrip: "those (map message_of_json (map json_of_message msgs)) = Some msgs"
  by (induction msgs) simp_all

lemma messages_of_json_roundtrip:
  "messages_of_json (JArr (map json_of_message msgs)) = Some msgs"
  by (simp add: messages_of_json_def those_roundtrip del: map_map)

text \<open>
  C8. \<open>reset\<close> empties the in-memory message list, clears the summarizer, takes a new
  session token from the generator and saves the now empty list with \<open>_save_messages\<close>:
  where the log file can be written, it holds the empty list afterwards. \<open>reset\<close> writes
  no other file: a paper registry kept in its own file reads back exactly as before.
\<close>

theorem reset_clears_memory_keeps_registry:
  assumes "reset w m = (w', m')"
  shows "messages m' = []
         \<and> summary_memory m' = \<lparr>chat_memory = [], buffer = []\<rparr>
         \<and> thread_id m' = uuid_source w (uuid_count w)
         \<and> uuid_count w' = Suc (uuid_count w)
         \<and> memory_file m' = memory_file m
         \<and> paper_details_file m' = paper_details_file m
         \<and> save_messages (w\<lparr>uuid_count := Suc (uuid_count w)\<rparr>) m' = w'
         \<and> (memory_file m \<noteq> [] \<and> \<not> write_fails w (memory_file m) \<longrightarrow>
               fs w' (memory_file m) = Some (Json (JArr [])))
         \<and> (\<forall>path. path \<noteq> memory_file m \<longrightarrow> fs w' path = fs w path)
         \<and> (paper_details_file m \<noteq> memory_file m \<longrightarrow>
               PenelopeMemory_get_paper_details w' m' = PenelopeMemory_get_paper_details w m)
         \<and> (\<forall>cfg. paper_details_path cfg \<noteq> memory_file m \<longrightarrow>
               get_paper_details w' cfg = get_paper_details w cfg)"
proof -
  define m3 where "m3 = m\<lparr>messages := [], summary_memory := clear (summary_memory m),
                            thread_id := uuid_source w (uuid_count w)\<rparr>"
  define w1 where "w1 = w\<lparr>uuid_count := Suc (uuid_count w)\<rparr>"
  have m': "m' = m3" and w': "w' = save_messages w1 m3"
    using assms by (auto simp: reset_def uuid4_def Let_def m3_def w1_def)
  have mf: "memory_file m3 = memory_file m" and msgs: "messages m3 = []"
    by (simp_all add: m3_def)
  have other: "fs w' path = fs w path" if "path \<noteq> memory_file m" for path
    using that fs_save_messages_other [of path m3 w1] by (simp add: w' mf w1_def)
  have log: "fs w' (memory_file m) = Some (Json (JArr []))"
    if "memory_file m \<noteq> []" "\<not> write_fails w (memory_file m)"
    using that fs_save_messages_log [of m3 w1] by (simp add: w' mf msgs w1_def)
  have reg: "PenelopeMemory_get_paper_details w' m' = PenelopeMemory_get_paper_details w m"
    if "paper_details_file m \<noteq> memory_file m"
    using other [OF that] by (simp add: PenelopeMemory_get_paper_details_def fs_read_def m' m3_def)
  have reg2: "get_paper_details w' cfg = get_paper_details w cfg"
    if "paper_details_path cfg \<noteq> memory_file m" for cfg
    using other [OF that] by (simp add: get_paper_details_def load_paper_details_def fs_read_def)
  have fields: "messages m' = []" "summary_memory m' = \<lparr>chat_memory = [], buffer = []\<rparr>"
    "thread_id m' = uuid_source w (uuid_count w)" "uuid_count w' = Suc (uuid_count w)"
    "memory_file m' = memory_file m" "paper_details_file m' = paper_details_file m"
    by (simp_all add: m' w' m3_def w1_def clear_def)
  have saved: "save_messages (w\<lparr>uuid_count := Suc (uuid_count w)\<rparr>) m' = w'"
    by (simp add: w' m' w1_def)
  show ?thesis
    using fields saved other log reg reg2 by blast
qed

theorem reset_clears_memory_keeps_registry_witness:
  "messages sample_memory = sample_log
   \<and> fs sample_world ''conversation_history.json'' = Some (Json (JArr (map json_of_message sample_log)))
   \<and> messages (snd (reset sample_world sample_memory)) = []
   \<and> summary_memory (snd (reset sample_world sample_memory)) = \<lparr>chat_memory = [], buffer = []\<rparr>
   \<and> thread_id (snd (reset sample_world sample_memory)) = ''session-1''
   \<and> fs (fst (reset sample_world sample_memory)) ''conversation_history.json'' = Some (Json (JArr []))
   \<and> fs (fst (reset sample_world sample_memory)) ''paper_details.json'' = Some (Json sample_registry)
   \<and> PenelopeMemory_get_paper_details (fst (reset sample_world sample_memory))
        (snd (reset sample_world sample_memory)) = sample_registry"
proof -
  have r: "reset sample_world sample_memory
             = (fst (reset sample_world sample_memory), snd (reset sample_world sample_memory))"
    by simp
  have a: "memory_file sample_memory = ''conversation_history.json''"
    "paper_details_file sample_memory = ''paper_details.json''"
    "messages sample_memory = sample_log"
    by (simp_all add: sample_memory_def)
  have b: "\<not> write_fails sample_world ''conversation_history.json''"
    "fs sample_world ''paper_details.json'' = Some (Json sample_registry)"
    "fs sample_world ''conversation_history.json'' = Some (Json (JArr (map json_of_message sample_log)))"
    "uuid_source sample_world (uuid_count sample_world) = ''session-1''"
    by (simp_all add: sample_world_def)
  have c: "PenelopeMemory_get_paper_details sample_world sample_memory = sample_registry"
    by (simp add: PenelopeMemory_get_paper_details_def fs_read_def a b)
  note t = reset_clears_memory_keeps_registry [OF r]
  have cleared: "messages (snd (reset sample_world sample_memory)) = []"
    "summary_memory (snd (reset sample_world sample_memory)) = \<lparr>chat_memory = [], buffer = []\<rparr>"
    "thread_id (snd (reset sample_world sample_memory)) = uuid_source sample_world (uuid_count sample_world)"
    using t by blast+
  have log: "fs (fst (reset sample_world sample_memory)) (memory_file sample_memory)
               = Some (Json (JArr []))"
    using t a b by simp
  have other: "fs (fst (reset sample_world sample_memory)) ''paper_details.json''
                 = fs sample_world ''paper_details.json''"
    using t a by simp
  have reg: "PenelopeMemory_get_paper_details (fst (reset sample_world sample_memory))
               (snd (reset sample_world sample_memory))
             = PenelopeMemory_get_paper_details sample_world sample_memory"
    using t a by simp
  show ?thesis
    using cleared log other reg a b c by simp
qed

section \<open>Round trips of the message log and the paper registry\<close>

lemma load_after_save:
  assumes "memory_file m \<noteq> []" "\<not> write_fails w (memory_file m)" "memory_file m0 = memory_file m"
  shows "\<exists>m1. load_messages (save_messages w m) m0 = Inr m1 \<and> messages m1 = messages m"
  using assms fs_save_messages_log [of m w]
  by (simp add: load_messages_def fs_read_def messages_of_json_roundtrip)

lemma save_paper_details_True:
  assumes "save_paper_details w cfg paper_id title authors url summary = (True, w')"
  shows "\<exists>kvs. get_paper_details w cfg = JObj kvs
           \<and> get_paper_details w' cfg
               = JObj (AList.update paper_id (paper_record w paper_id title authors url summary) kvs)"
proof (cases "get_paper_details w cfg")
  case (JObj kvs)
  then show ?thesis
    using assms
    by (auto simp: save_paper_details_def get_paper_details_def Let_def fs_write_def
        load_paper_details_def fs_read_def split: if_splits)
qed (use assms in \<open>auto simp: save_paper_details_def get_paper_details_def Let_def\<close>)

text \<open>
  C9. Saving and then loading gives back what was saved. For the message log: after
  \<open>_save_messages\<close> has written the file, \<open>_load_messages\<close> on the same path yields the
  saved message list. For the paper registry: when \<open>save_paper_details\<close> reports
  success, \<open>get_paper_details\<close> returns the registry it read with the one record set,
  and every record under another id is as it was.
\<close>

theorem save_then_load_identical:
  "(memory_file m \<noteq> [] \<and> \<not> write_fails w (memory_file m) \<and> memory_file m0 = memory_file m \<longrightarrow>
      (\<exists>m1. load_messages (save_messages w m) m0 = Inr m1 \<and> messages m1 = messages m))
   \<and> (save_paper_details w cfg paper_id title authors url summary = (True, w') \<longrightarrow>
      (\<exists>kvs. get_paper_details w cfg = JObj kvs
         \<and> get_paper_details w' cfg
             = JObj (AList.update paper_id (paper_record w paper_id title authors url summary) kvs)
         \<and> map_of (AList.update paper_id (paper_record w paper_id title authors url summary) kvs) paper_id
             = Some (paper_record w paper_id title authors url summary)
         \<and> (\<forall>other. other \<noteq> paper_id \<longrightarrow>
               map_of (AList.update paper_id (paper_record w paper_id title authors url summary) kvs) other
                 = map_of kvs other)))"
proof (intro conjI impI)
  assume "memory_file m \<noteq> [] \<and> \<not> write_fails w (memory_file m) \<and> memory_file m0 = memory_file m"
  then show "\<exists>m1. load_messages (save_messages w m) m0 = Inr m1 \<and> messages m1 = messages m"
    using load_after_save by blast
next
  assume "save_paper_details w cfg paper_id title authors url summary = (True, w')"
  then obtain kvs where "get_paper_details w cfg = JObj kvs"
    "get_paper_details w' cfg
       = JObj (AList.update paper_id (paper_record w paper_id title authors url summary) kvs)"
    using save_paper_details_True by blast
  then show "\<exists>kvs. get_paper_details w cfg = JObj kvs
         \<and> get_paper_details w' cfg
             = JObj (AList.update paper_id (paper_record w paper_id title authors url summary) kvs)
         \<and> map_of (AList.update paper_id (paper_record w paper_id title authors url summary) kvs) paper_id
             = Some (paper_record w paper_id title authors url summary)
         \<and> (\<forall>other. other \<noteq> paper_id \<longrightarrow>
               map_of (AList.update paper_id (paper_record w paper_id title authors url summary) kvs) other
                 = map_of kvs other)"
    by (auto simp: update_conv')
qed

theorem save_then_load_identical_witness:
  "(\<exists>m1. load_messages (save_messages sample_world (memory_after 2)) sample_memory = Inr m1
          \<and> messages m1 = sample_log @ sample_log)
   \<and> fst (save_paper_details sample_world (Some sample_cfg) ''2301.00001'' ''Routing'' ''B. Author''
             (Some ''http://arxiv.org/pdf/2301.00001'') None) = True
   \<and> get_paper_details
        (snd (save_paper_details sample_world (Some sample_cfg) ''2301.00001'' ''Routing'' ''B. Author''
               (Some ''http://arxiv.org/pdf/2301.00001'') None))
        (Some sample_cfg)
       = JObj [(''2201.12345'', sample_paper),
               (''2301.00001'',
                 paper_record sample_world ''2301.00001'' ''Routing'' ''B. Author''
                   (Some ''http://arxiv.org/pdf/2301.00001'') None)]"
proof -
  define w' where "w' = snd (save_paper_details sample_world (Some sample_cfg) ''2301.00001''
     ''Routing'' ''B. Author'' (Some ''http://arxiv.org/pdf/2301.00001'') None)"
  have path: "paper_details_path (Some sample_cfg) = ''paper_details.json''"
    by (simp add: paper_details_path_def get_file_path_def sample_cfg_def)
  have old: "get_paper_details sample_world (Some sample_cfg) = JObj [(''2201.12345'', sample_paper)]"
    by (simp add: get_paper_details_def load_paper_details_def fs_read_def path sample_world_def
        sample_registry_def)
  have ok: "fst (save_paper_details sample_world (Some sample_cfg) ''2301.00001'' ''Routing''
     ''B. Author'' (Some ''http://arxiv.org/pdf/2301.00001'') None) = True"
    using old
    by (simp add: save_paper_details_def get_paper_details_def Let_def fs_write_def path
        sample_world_def)
  then have saved: "save_paper_details sample_world (Some sample_cfg) ''2301.00001'' ''Routing''
     ''B. Author'' (Some ''http://arxiv.org/pdf/2301.00001'') None = (True, w')"
    by (simp add: w'_def prod_eq_iff)
  have a: "memory_file (memory_after 2) \<noteq> []"
    "\<not> write_fails sample_world (memory_file (memory_after 2))"
    "memory_file sample_memory = memory_file (memory_after 2)"
    "messages (memory_after 2) = sample_log @ sample_log"
    by (simp_all add: memory_after_def sample_memory_def sample_world_def numeral_2_eq_2)
  from save_then_load_identical
         [of "memory_after 2" sample_world sample_memory "Some sample_cfg" "''2301.00001''"
             "''Routing''" "''B. Author''" "Some ''http://arxiv.org/pdf/2301.00001''" None w']
  have log: "\<exists>m1. load_messages (save_messages sample_world (memory_after 2)) sample_memory = Inr m1
          \<and> messages m1 = sample_log @ sample_log"
    and reg: "get_paper_details w' (Some sample_cfg)
          = JObj (AList.update ''2301.00001''
                   (paper_record sample_world ''2301.00001'' ''Routing'' ''B. Author''
                      (Some ''http://arxiv.org/pdf/2301.00001'') None)
                   [(''2201.12345'', sample_paper)])"
    using a saved old by auto
  show ?thesis
    using log reg ok by (simp add: w'_def)
qed

section \<open>The router: knowledge-base statistics\<close>

lemma get_stats_not_defined: "KnowledgeBase_call ''get_stats'' body = Inl (AttributeError ''KnowledgeBase'' ''get_stats'')"
  by (simp add: KnowledgeBase_call_def KnowledgeBase_attributes_def)

lemma get_kb_info_error: "get_kb_info env detailed = get_stats_missing"
  by (simp add: get_kb_info_def get_stats_not_defined get_stats_missing_def)

lemma py_lower_char_space: "py_isspace c \<Longrightarrow> py_lower_char c = c"
  by (auto simp: py_isspace_def py_lower_char_def Let_def)

lemma startswith_Cons: "startswith (c # cs) (p # ps) = (c = p \<and> startswith cs ps)"
  by (simp add: startswith_def)

lemma startswith_Nil: "startswith [] (p # ps) = False"
  by (simp add: startswith_def)

lemma check_kb_not_blank:
  assumes "startswith (py_lower message) ''check kb''"
  shows "py_strip message \<noteq> []"
proof -
  from assms obtain c cs where msg: "message = c # cs" and c: "py_lower_char c = CHR ''c''"
    by (cases message) (auto simp: py_lower_def startswith_Cons startswith_Nil)
  have "\<not> py_isspace c"
  proof
    assume sp: "py_isspace c"
    then have "c = CHR ''c''" using c py_lower_char_space by simp
    then show False using sp by (simp add: py_isspace_def)
  qed
  then show ?thesis
    unfolding msg by (rule py_strip_nonempty)
qed

lemma check_kb_not_other:
  assumes "startswith (py_lower message) ''check kb''"
  shows "\<not> startswith (py_lower message) ''search arxiv:''"
    "\<not> startswith (py_lower message) ''summarize arxiv:''"
    "\<not> startswith (py_lower message) ''search kb:''"
  using assms by (cases "py_lower message"; simp add: startswith_Cons startswith_Nil)+

text \<open>
  C5 says an utterance beginning with \<open>check kb\<close> gets the statistics of the knowledge
  base rather than an error message. The code answers every such utterance, detailed or
  not, with the error text for the missing \<open>get_stats\<close> attribute, whatever such a
  method would return.
\<close>

theorem check_kb_reports_missing_method:
  assumes "startswith (py_lower message) ''check kb''"
  shows "chat env cfg kb m w message history = ((turn history message get_stats_missing, []), w)"
  using assms check_kb_not_blank [OF assms] check_kb_not_other [OF assms]
  by (simp add: chat_def chat_body_def Let_def get_kb_info_error)

lemma lower_check_kb: "py_lower ''check kb details'' = ''check kb details''"
  by (simp add: py_lower_def py_lower_char_def)

theorem check_kb_reports_missing_method_witness:
  "startswith (py_lower ''check kb details'') ''check kb''
   \<and> fst (fst (chat sample_env sample_cfg sample_kb sample_memory sample_world ''check kb details'' []))
        = [\<lparr>role = ''user'', content = ''check kb details''\<rparr>,
           \<lparr>role = ''assistant'', content = get_stats_missing\<rparr>]"
proof -
  have h: "startswith (py_lower ''check kb details'') ''check kb''"
    by (simp add: lower_check_kb startswith_def)
  show ?thesis
    using check_kb_reports_missing_method [OF h, of sample_env sample_cfg sample_kb sample_memory sample_world "[]"] h
    by (simp add: turn_def)
qed

section \<open>The router: the default flow\<close>

lemma retrieval_passes_content_test:
  "search_relevant_context fmt2f kb query top_k \<noteq> []
   \<and> length (py_strip (search_relevant_context fmt2f kb query top_k)) > 0"
proof -
  obtain c t where "search_relevant_context fmt2f kb query top_k = c # t" "\<not> py_isspace c"
    using search_head by blast
  then show ?thesis
    using py_strip_nonempty by simp
qed

lemma chat_default_flow:
  assumes "py_strip message \<noteq> []" and "unprefixed message"
  shows "chat env cfg kb m w message history =
           ((turn history message
               (fst (ClaudeModel_get_response (claude m) (log_call (RetrievalCall message 3) w)
                      (default_prompt message (search_relevant_context (format_2f env) kb message 3))
                      None None)), []),
            snd (ClaudeModel_get_response (claude m) (log_call (RetrievalCall message 3) w)
                      (default_prompt message (search_relevant_context (format_2f env) kb message 3))
                      None None))"
  using assms retrieval_passes_content_test [of "format_2f env" kb message 3]
  by (simp add: chat_def chat_body_def Let_def unprefixed_def case_prod_beta)

text \<open>
  C1 says the default flow falls back to the web search whenever retrieval finds no
  relevant context. The code's default flow makes exactly two calls for every
  unprefixed utterance, retrieval and then generation from the combined prompt, also
  when retrieval returned the sentinel or the error string: the web search is never
  reached from it.
\<close>

theorem default_flow_never_reaches_web_search:
  assumes "py_strip message \<noteq> []" and "unprefixed message"
  shows "new_calls w (snd (chat env cfg kb m w message history)) =
           [RetrievalCall message 3,
            GenerationCall
              (default_prompt message (search_relevant_context (format_2f env) kb message 3))
              None None]"
  by (simp add: chat_default_flow [OF assms])

theorem default_flow_never_reaches_web_search_witness:
  "py_strip ''what is bitcoin?'' \<noteq> []
   \<and> unprefixed ''what is bitcoin?''
   \<and> db_docs empty_kb = []
   \<and> search_relevant_context (format_2f sample_env) empty_kb ''what is bitcoin?'' 3
       = ''No relevant information found in knowledge base.''
   \<and> new_calls sample_world
        (snd (chat sample_env sample_cfg empty_kb sample_memory sample_world ''what is bitcoin?'' []))
       = [RetrievalCall ''what is bitcoin?'' 3,
          GenerationCall
            (default_prompt ''what is bitcoin?'' ''No relevant information found in knowledge base.'')
            None None]"
proof -
  have a: "py_strip ''what is bitcoin?'' \<noteq> []"
    by (rule py_strip_nonempty) (simp add: py_isspace_def)
  have b: "unprefixed ''what is bitcoin?''"
    by (simp add: unprefixed_def py_lower_def py_lower_char_def startswith_def)
  have c: "search_relevant_context (format_2f sample_env) empty_kb ''what is bitcoin?'' 3
       = ''No relevant information found in knowledge base.''"
    by (simp add: search_cases empty_kb_def surviving_def no_relevant_def)
  show ?thesis
    using default_flow_never_reaches_web_search
            [OF a b, of sample_world sample_env sample_cfg empty_kb sample_memory "[]"] a b c
    by (simp add: empty_kb_def)
qed

section \<open>The router: paper summaries\<close>

lemma add_document_not_defined:
  "KnowledgeBase_call ''add_document'' body = Inl (AttributeError ''KnowledgeBase'' ''add_document'')"
  by (simp add: KnowledgeBase_call_def KnowledgeBase_attributes_def)

lemma py_strip_head:
  assumes "\<not> py_isspace c"
  shows "\<exists>t'. py_strip (c # t) = c # t'"
proof -
  have "dropWhile py_isspace (rev t @ [c]) = dropWhile py_isspace (rev t) @ [c]"
    using assms by (simp add: dropWhile_append3)
  then show ?thesis
    using assms by (simp add: py_strip_def)
qed

lemma py_lower_char_colon:
  assumes "py_lower_char c = CHR '':''"
  shows "c = CHR '':''"
proof (rule ccontr)
  assume ne: "c \<noteq> CHR '':''"
  then have shifted: "char_of (of_char c + 32 :: nat) = CHR '':''"
    and range: "(65 \<le> (of_char c :: nat) \<and> (of_char c :: nat) \<le> 90)
                 \<or> (192 \<le> (of_char c :: nat) \<and> (of_char c :: nat) \<le> 222)"
    using assms by (auto simp: py_lower_char_def Let_def split: if_splits)
  from shifted have "(of_char (char_of (of_char c + 32 :: nat)) :: nat) = of_char (CHR '':'')"
    by simp
  then have "((of_char c :: nat) + 32) mod 256 = 58"
    by simp
  then show False
    using range by auto
qed

lemma summarize_paper_id_keeps_colon:
  assumes "startswith (py_lower message) ''summarize arxiv:''"
  shows "\<exists>rest. py_strip (drop 15 message) = CHR '':'' # rest"
proof -
  define a where "a = take (length ''summarize arxiv:'') message"
  define b where "b = drop (length ''summarize arxiv:'') message"
  have msg: "message = a @ b"
    by (simp add: a_def b_def)
  have "map py_lower_char a = ''summarize arxiv'' @ [CHR '':'']"
    using assms by (simp add: startswith_def py_lower_def a_def take_map)
  then obtain a1 c where a: "a = a1 @ [c]" and a1: "map py_lower_char a1 = ''summarize arxiv''"
    and c: "py_lower_char c = CHR '':''"
    by (auto simp: map_eq_append_conv)
  have "length a1 = length ''summarize arxiv''"
    using a1 by (metis length_map)
  then have len: "length a1 = 15"
    by simp
  have "c = CHR '':''"
    using c by (rule py_lower_char_colon)
  then have "drop 15 message = CHR '':'' # b"
    using len by (simp add: msg a)
  moreover have "\<not> py_isspace (CHR '':'')"
    by (simp add: py_isspace_def)
  ultimately show ?thesis
    using py_strip_head by simp
qed

lemma lower_summarize: "py_lower ''summarize arxiv: 2201.12345'' = ''summarize arxiv: 2201.12345''"
  by (simp add: py_lower_def py_lower_char_def)

lemma strip_paper_id:
  "drop 15 ''summarize arxiv: 2201.12345'' = '': 2201.12345''"
  "py_strip '': 2201.12345'' = '': 2201.12345''"
  by (simp_all add: py_strip_def py_isspace_def)

lemma sample_registry_file:
  "fs_read sample_world (paper_details_path (Some sample_cfg)) = Some (Json sample_registry)"
  by (simp add: fs_read_def paper_details_path_def get_file_path_def sample_cfg_def sample_world_def)

lemma summarize_unknown_id:
  "summarize_arxiv_paper sample_env sample_world '': 2201.12345'' True (Some sample_cfg) (Some sample_kb)
     (Some sample_claude) = (Inr ''No details found for paper ID : 2201.12345.'', sample_world)"
  by (simp add: summarize_arxiv_paper_def sample_registry_file sample_registry_def)

lemma summarize_known_id:
  "fst (summarize_arxiv_paper sample_env sample_world ''2201.12345'' True (Some sample_cfg)
          (Some sample_kb) (Some sample_claude)) = Inr (''model answer'' @ add_document_missing)"
  by (simp add: summarize_arxiv_paper_def sample_registry_file sample_registry_def sample_paper_def
      add_document_not_defined add_document_missing_def ClaudeModel_get_response_def sample_claude_def
      Let_def)

text \<open>
  C2 says \<open>summarize arxiv: <id>\<close> runs the summarization with the text after the prefix
  as the paper id and inserts the summary into the knowledge base. With paper
  \<open>2201.12345\<close> in the registry, the code looks up \<open>: 2201.12345\<close> (the slice starts at
  index 15, on the colon of the 16-character prefix) and answers that it has no details;
  and given the right id, as the arXiv tab gives it, the insertion stops at the lookup of
  \<open>add_document\<close>, which the class does not define, although here the method would
  have reported success.
\<close>

theorem summarize_command_wrong_id_no_insertion:
  "startswith (py_lower ''summarize arxiv: 2201.12345'') ''summarize arxiv:''
   \<and> map_of [(''2201.12345'', sample_paper)] ''2201.12345'' = Some sample_paper
   \<and> sample_registry = JObj [(''2201.12345'', sample_paper)]
   \<and> fst (chat sample_env sample_cfg sample_kb sample_memory sample_world
            ''summarize arxiv: 2201.12345'' [])
       = ([\<lparr>role = ''user'', content = ''summarize arxiv: 2201.12345''\<rparr>,
           \<lparr>role = ''assistant'', content = ''No details found for paper ID : 2201.12345.''\<rparr>], [])
   \<and> add_document_body sample_env
         (''Title: Channels\<newline>Authors: A. Author\<newline>\<newline>Summary:\<newline>model answer'')
         [(''source'', JStr ''arxiv''), (''paper_id'', JStr ''2201.12345''),
          (''title'', JStr ''Channels''), (''authors'', JStr ''A. Author'')] = Inr True
   \<and> fst (summarize_arxiv_paper sample_env sample_world ''2201.12345'' True (Some sample_cfg)
            (Some sample_kb) (Some sample_claude))
       = Inr (''model answer'' @ add_document_missing)"
proof -
  have pre: "startswith (py_lower ''summarize arxiv: 2201.12345'') ''summarize arxiv:''"
    "\<not> startswith (py_lower ''summarize arxiv: 2201.12345'') ''search arxiv:''"
    by (simp_all add: lower_summarize startswith_def)
  have nonblank: "py_strip ''summarize arxiv: 2201.12345'' \<noteq> []"
    by (rule py_strip_nonempty) (simp add: py_isspace_def)
  have routed: "fst (chat sample_env sample_cfg sample_kb sample_memory sample_world
            ''summarize arxiv: 2201.12345'' [])
       = ([\<lparr>role = ''user'', content = ''summarize arxiv: 2201.12345''\<rparr>,
           \<lparr>role = ''assistant'', content = ''No details found for paper ID : 2201.12345.''\<rparr>], [])"
    using pre nonblank
    by (simp add: chat_def chat_body_def Let_def strip_paper_id summarize_unknown_id turn_def
        sample_memory_def)
  have body: "add_document_body sample_env
         (''Title: Channels\<newline>Authors: A. Author\<newline>\<newline>Summary:\<newline>model answer'')
         [(''source'', JStr ''arxiv''), (''paper_id'', JStr ''2201.12345''),
          (''title'', JStr ''Channels''), (''authors'', JStr ''A. Author'')] = Inr True"
    by (simp add: sample_env_def)
  show ?thesis
    using pre(1) routed body summarize_known_id by (simp add: sample_registry_def)
qed

end
